theory Spec2Isabelle
  imports Complex_Main
begin

section \<open>Data model (types.ts)\<close>

text \<open>
  The interfaces of \<^verbatim>\<open>types.ts\<close> (they follow the component in \<^verbatim>\<open>src/App.tsx\<close>, lines
  266-311) as records. Field names carry the interface as a
  prefix where two interfaces share a name (\<^verbatim>\<open>id\<close>, \<^verbatim>\<open>name\<close>) or where the name is
  taken in HOL (\<^verbatim>\<open>value\<close>, \<^verbatim>\<open>unit\<close>, \<^verbatim>\<open>type\<close>, \<^verbatim>\<open>text\<close>). An optional property
  (\<^verbatim>\<open>conditions?: string\<close>) is an \<open>option\<close>, \<open>None\<close> standing for \<^verbatim>\<open>undefined\<close>; a
  nullable one (\<^verbatim>\<open>SimulationResult | null\<close>) likewise. The value of a metric is a finite
  number, as a JSON text denotes one, and is a \<open>real\<close> here (every finite double is one;
  a JSON number too large for a double is not represented). What the arithmetic of the
  comparison view computes from such values is a \<open>number\<close>, defined with that view.
  \<^verbatim>\<open>Date.now()\<close> is an \<open>int\<close> (milliseconds).
\<close>

record ProcessStep =
  step_id :: string
  step_name :: string
  step_description :: string
  step_inputs :: string
  step_conditions :: "string option"

datatype category = Efficiency | Waste | Yield | Throughput | Other

record SimulationMetric =
  metric_name :: string
  metric_value :: real
  metric_unit :: string
  metric_category :: category

datatype log_status = Success | Warning | Failure

record SimulationLog =
  stepId :: string
  stepName :: string
  outcome :: string
  details :: string
  status :: log_status

datatype run_type = BASELINE | OPTIMIZED

record SimulationResult =
  result_id :: string
  result_timestamp :: int
  result_type :: run_type
  metrics :: "SimulationMetric list"
  logs :: "SimulationLog list"
  summary :: string
  assumptions :: "string list"

datatype role = User | Model

record ChatMessage =
  msg_role :: role
  msg_text :: string
  isOptimizedProposal :: "bool option"
  proposedProcess :: "ProcessStep list option"


section \<open>JavaScript numbers\<close>

text \<open>
  The results of JavaScript arithmetic: \<^verbatim>\<open>NaN\<close>, the two infinities, and the finite
  doubles. The sign of a zero is not represented: \<open>Finite 0\<close> stands for \<^verbatim>\<open>+0\<close> and
  \<^verbatim>\<open>-0\<close>, and a division by it takes it for \<^verbatim>\<open>+0\<close>.

  \<^verbatim>\<open>x - y\<close>, \<^verbatim>\<open>x / y\<close> and \<^verbatim>\<open>x * y\<close> follow ECMAScript's tables for the special values. On
  finite operands the exact result is rounded to a double; the rounding \<open>rnd\<close> is a
  parameter of the operations, so what is proved of them holds of every rounding.
  \<open>binary64\<close> below is the rounding the language prescribes.
\<close>

datatype number = NaN | PosInfinity | NegInfinity | Finite real

fun js_minus :: "(real \<Rightarrow> number) \<Rightarrow> number \<Rightarrow> number \<Rightarrow> number" where
  "js_minus rnd NaN y = NaN"
| "js_minus rnd x NaN = NaN"
| "js_minus rnd PosInfinity PosInfinity = NaN"
| "js_minus rnd PosInfinity y = PosInfinity"
| "js_minus rnd NegInfinity NegInfinity = NaN"
| "js_minus rnd NegInfinity y = NegInfinity"
| "js_minus rnd (Finite x) PosInfinity = NegInfinity"
| "js_minus rnd (Finite x) NegInfinity = PosInfinity"
| "js_minus rnd (Finite x) (Finite y) = rnd (x - y)"

fun js_divide :: "(real \<Rightarrow> number) \<Rightarrow> number \<Rightarrow> number \<Rightarrow> number" where
  "js_divide rnd NaN y = NaN"
| "js_divide rnd x NaN = NaN"
| "js_divide rnd PosInfinity (Finite y) = (if y < 0 then NegInfinity else PosInfinity)"
| "js_divide rnd NegInfinity (Finite y) = (if y < 0 then PosInfinity else NegInfinity)"
| "js_divide rnd PosInfinity y = NaN"
| "js_divide rnd NegInfinity y = NaN"
| "js_divide rnd (Finite x) (Finite y) =
     (if y = 0 then (if x = 0 then NaN else if x < 0 then NegInfinity else PosInfinity)
      else rnd (x / y))"
| "js_divide rnd (Finite x) y = Finite 0"

fun js_times :: "(real \<Rightarrow> number) \<Rightarrow> number \<Rightarrow> number \<Rightarrow> number" where
  "js_times rnd NaN y = NaN"
| "js_times rnd x NaN = NaN"
| "js_times rnd (Finite x) (Finite y) = rnd (x * y)"
| "js_times rnd (Finite x) PosInfinity =
     (if x = 0 then NaN else if x < 0 then NegInfinity else PosInfinity)"
| "js_times rnd (Finite x) NegInfinity =
     (if x = 0 then NaN else if x < 0 then PosInfinity else NegInfinity)"
| "js_times rnd PosInfinity (Finite y) =
     (if y = 0 then NaN else if y < 0 then NegInfinity else PosInfinity)"
| "js_times rnd NegInfinity (Finite y) =
     (if y = 0 then NaN else if y < 0 then PosInfinity else NegInfinity)"
| "js_times rnd PosInfinity PosInfinity = PosInfinity"
| "js_times rnd PosInfinity NegInfinity = NegInfinity"
| "js_times rnd NegInfinity PosInfinity = NegInfinity"
| "js_times rnd NegInfinity NegInfinity = PosInfinity"

text \<open>\<^verbatim>\<open>x < y\<close>: false when either side is \<^verbatim>\<open>NaN\<close>.\<close>

fun js_less :: "number \<Rightarrow> number \<Rightarrow> bool" where
  "js_less NaN y = False"
| "js_less x NaN = False"
| "js_less (Finite x) (Finite y) = (x < y)"
| "js_less NegInfinity NegInfinity = False"
| "js_less NegInfinity y = True"
| "js_less PosInfinity y = False"
| "js_less (Finite x) PosInfinity = True"
| "js_less (Finite x) NegInfinity = False"

text \<open>
  Rounding to the nearest double, ties to even (IEEE 754 binary64): the exponent of
  \<open>x\<close>, not below that of the subnormal numbers; the spacing of the doubles at that
  exponent; the nearest multiple of the spacing; an infinity when that is beyond the
  largest double.
\<close>

definition roundHalfEven :: "real \<Rightarrow> int" where
  "roundHalfEven r =
     (let f = \<lfloor>r\<rfloor>; d = r - of_int f
      in if d < 1 / 2 then f else if 1 / 2 < d then f + 1 else if even f then f else f + 1)"

definition binary64 :: "real \<Rightarrow> number" where
  "binary64 x =
     (if x = 0 then Finite 0
      else
        let e = max \<lfloor>log 2 \<bar>x\<bar>\<rfloor> (- 1022);
            ulp = 2 powr of_int (e - 52);
            y = of_int (roundHalfEven (x / ulp)) * ulp
        in if 2 ^ 1024 \<le> \<bar>y\<bar> then (if x < 0 then NegInfinity else PosInfinity)
           else Finite y)"

section \<open>ComparisonView (components/ComparisonView.tsx)\<close>

text \<open>
  \<^verbatim>\<open>Array.prototype.find\<close> is \<^const>\<open>find\<close>: the first element that satisfies the
  predicate, or \<^verbatim>\<open>undefined\<close> (\<open>None\<close>).
\<close>

record chart_entry =
  chart_name :: string
  chart_Baseline :: real
  chart_Optimized :: real
  chart_unit :: string

text \<open>\<^verbatim>\<open>chartData\<close>, lines 13-21: one entry per baseline metric, in order.\<close>

definition chartData :: "SimulationResult \<Rightarrow> SimulationResult \<Rightarrow> chart_entry list" where
  "chartData baseline optimized =
     map (\<lambda>bMetric.
            let oMetric = find (\<lambda>m. metric_name m = metric_name bMetric) (metrics optimized)
            in \<lparr> chart_name = metric_name bMetric,
                 chart_Baseline = metric_value bMetric,
                 chart_Optimized = (case oMetric of Some om \<Rightarrow> metric_value om | None \<Rightarrow> 0),
                 chart_unit = metric_unit bMetric \<rparr>)
         (metrics baseline)"

text \<open>
  \<^verbatim>\<open>x?.value || 0\<close>: \<^verbatim>\<open>undefined\<close> when nothing was found, and then \<^verbatim>\<open>0\<close>; a found
  value that is falsy (\<^verbatim>\<open>0\<close>) is replaced by \<^verbatim>\<open>0\<close> as well.
\<close>

definition valueOrZero :: "SimulationMetric option \<Rightarrow> real" where
  "valueOrZero found =
     (case found of
        None \<Rightarrow> 0
      | Some m \<Rightarrow> (if metric_value m = 0 then 0 else metric_value m))"

text \<open>
  \<^verbatim>\<open>getDelta\<close>, lines 23-28. \<^verbatim>\<open>b === 0\<close> is decided on the value; the arithmetic of the
  last line is that of JavaScript numbers.
\<close>

definition getDelta ::
  "(real \<Rightarrow> number) \<Rightarrow> SimulationResult \<Rightarrow> SimulationResult \<Rightarrow> string \<Rightarrow> number" where
  "getDelta rnd baseline optimized metricName =
     (let b = valueOrZero (find (\<lambda>m. metric_name m = metricName) (metrics baseline));
          o' = valueOrZero (find (\<lambda>m. metric_name m = metricName) (metrics optimized))
      in if b = 0 then Finite 0
         else js_times rnd (js_divide rnd (js_minus rnd (Finite o') (Finite b)) (Finite b))
                (Finite 100))"

text \<open>
  The table body, lines 70-94: one row per baseline metric. A row keeps what the cells
  are computed from: the metric's name, value and unit, the optimized metric's value and
  unit (\<^verbatim>\<open>optMetric?.value\<close>, \<^verbatim>\<open>optMetric?.unit\<close>), the delta, and the colour of the
  badge. The text of the delta cell (\<^verbatim>\<open>toFixed(1)\<close>) is not represented.
\<close>

datatype badge = Green | Slate | Red

record table_row =
  row_name :: string
  row_baseline_value :: real
  row_baseline_unit :: string
  row_optimized_value :: "real option"
  row_optimized_unit :: "string option"
  row_delta :: number
  row_isImprovement :: bool
  row_badge :: badge
  row_plus_sign :: bool

definition tableRows ::
  "(real \<Rightarrow> number) \<Rightarrow> SimulationResult \<Rightarrow> SimulationResult \<Rightarrow> table_row list" where
  "tableRows rnd baseline optimized =
     map (\<lambda>metric.
            let optMetric = find (\<lambda>m. metric_name m = metric_name metric) (metrics optimized);
                delta = getDelta rnd baseline optimized (metric_name metric);
                isPositiveGood = (metric_category metric \<in> set [Yield, Efficiency, Throughput]);
                isImprovement =
                  (if isPositiveGood then js_less (Finite 0) delta else js_less delta (Finite 0))
            in \<lparr> row_name = metric_name metric,
                 row_baseline_value = metric_value metric,
                 row_baseline_unit = metric_unit metric,
                 row_optimized_value = map_option metric_value optMetric,
                 row_optimized_unit = map_option metric_unit optMetric,
                 row_delta = delta,
                 row_isImprovement = isImprovement,
                 row_badge =
                   (if isImprovement then Green else if delta = Finite 0 then Slate else Red),
                 row_plus_sign = js_less (Finite 0) delta \<rparr>)
         (metrics baseline)"


section \<open>The oracle adapters (services/geminiService.ts)\<close>

text \<open>
  The module follows the comparison view in \<^verbatim>\<open>src/components/ComparisonView.tsx\<close>; the
  line numbers below are that file's.

  The errors the adapters throw or let through:
  \<^item> \<open>ApiKeyMissing\<close> is \<^verbatim>\<open>new Error("API Key is missing")\<close>, the specification's
    \<^verbatim>\<open>OracleUnavailable\<close>;
  \<^item> \<open>NoResponse\<close> is \<^verbatim>\<open>new Error("No response from AI")\<close>;
  \<^item> \<open>RequestFailed\<close> is the rejection of the awaited call to the service;
  \<^item> \<open>SyntaxError\<close> is what \<^verbatim>\<open>JSON.parse\<close> throws, \<open>TypeError\<close> what a property read
    on \<^verbatim>\<open>null\<close> throws.
\<close>

datatype error = ApiKeyMissing | NoResponse | RequestFailed | SyntaxError | TypeError

text \<open>
  The external service is a parameter of each adapter: a function from the request to
  what the awaited call gives. A call either rejects or resolves; \<^verbatim>\<open>response.text\<close> of a
  resolved call is represented by what \<^verbatim>\<open>JSON.parse\<close> makes of it:
  \<^item> \<open>NoText\<close>: the text is \<^verbatim>\<open>undefined\<close> or empty (falsy);
  \<^item> \<open>NotJson\<close>: \<^verbatim>\<open>JSON.parse\<close> throws;
  \<^item> \<open>JsonNull\<close>: the text parses to \<^verbatim>\<open>null\<close>;
  \<^item> \<open>Json d\<close>: the text parses to \<open>d\<close>, a value of the type the code goes on to use
    it at.
  The code checks nothing else about the parsed value, so a text that parses to a value
  of another shape is outside this model. An adapter returns its result together with
  the list of requests it issued.
\<close>

datatype 'a response_text = NoText | NotJson | JsonNull | Json 'a

datatype 'a awaited = Rejects | Resolves 'a

subsection \<open>simulateProcess, lines 110-194\<close>

text \<open>
  The prompt is represented by the values interpolated into it: the process name, the
  steps and which of the two metric instructions was chosen.
\<close>

datatype metric_instruction = MustInclude "string list" | StandardKPIs

record sim_request =
  sim_apiKey :: string
  sim_processName :: string
  sim_steps :: "ProcessStep list"
  sim_metricInstruction :: metric_instruction

record sim_data =
  data_metrics :: "SimulationMetric list"
  data_logs :: "SimulationLog list"
  data_summary :: string
  data_assumptions :: "string list"

text \<open>
  \<open>uuid\<close> and \<open>now\<close> are what \<^verbatim>\<open>crypto.randomUUID()\<close> and \<^verbatim>\<open>Date.now()\<close> return when the
  result is built. \<^verbatim>\<open>!apiKey\<close> holds of the empty string.
\<close>

definition simulateProcess ::
  "(sim_request \<Rightarrow> sim_data response_text awaited) \<Rightarrow> string \<Rightarrow> int \<Rightarrow>
   string \<Rightarrow> string \<Rightarrow> ProcessStep list \<Rightarrow> run_type \<Rightarrow> string list option \<Rightarrow>
   (error + SimulationResult) \<times> sim_request list" where
  "simulateProcess oracle uuid now apiKey processName steps type' referenceMetrics =
     (if apiKey = [] then (Inl ApiKeyMissing, [])
      else
        let metricInstruction =
              (case referenceMetrics of
                 None \<Rightarrow> StandardKPIs
               | Some names \<Rightarrow> if length names > 0 then MustInclude names else StandardKPIs);
            request = \<lparr> sim_apiKey = apiKey, sim_processName = processName,
                        sim_steps = steps, sim_metricInstruction = metricInstruction \<rparr>
        in (case oracle request of
              Rejects \<Rightarrow> (Inl RequestFailed, [request])
            | Resolves NoText \<Rightarrow> (Inl NoResponse, [request])
            | Resolves NotJson \<Rightarrow> (Inl SyntaxError, [request])
            | Resolves JsonNull \<Rightarrow> (Inl TypeError, [request])
            | Resolves (Json data) \<Rightarrow>
                (Inr \<lparr> result_id = uuid,
                       result_timestamp = now,
                       result_type = type',
                       metrics = data_metrics data,
                       logs = data_logs data,
                       summary = data_summary data,
                       assumptions = data_assumptions data \<rparr>,
                 [request])))"

subsection \<open>parseProcessDescription, lines 198-250\<close>

text \<open>
  A step as the service's text gives it: the code provides for a missing or empty
  \<^verbatim>\<open>id\<close>, \<^verbatim>\<open>inputs\<close> and \<^verbatim>\<open>conditions\<close>, and copies \<^verbatim>\<open>name\<close> and \<^verbatim>\<open>description\<close>.
\<close>

record raw_step =
  raw_id :: "string option"
  raw_name :: string
  raw_description :: string
  raw_inputs :: "string option"
  raw_conditions :: "string option"

record parse_request =
  parse_apiKey :: string
  parse_text :: string

text \<open>
  Truthiness of an optional string, and \<^verbatim>\<open>v || d\<close> on it: \<^verbatim>\<open>undefined\<close> and the empty
  string are falsy.
\<close>

definition falsy :: "string option \<Rightarrow> bool" where
  "falsy v = (case v of None \<Rightarrow> True | Some x \<Rightarrow> x = [])"

definition orElse :: "string option \<Rightarrow> string \<Rightarrow> string" where
  "orElse v d = (case v of None \<Rightarrow> d | Some x \<Rightarrow> if x = [] then d else x)"

text \<open>
  The \<^verbatim>\<open>steps.map\<close> of lines 243-249. \<open>uuids k\<close> is what the \<open>k\<close>-th call of
  \<^verbatim>\<open>crypto.randomUUID()\<close> returns; \<^verbatim>\<open>s.id || crypto.randomUUID()\<close> makes the call only
  when \<^verbatim>\<open>s.id\<close> is falsy, so the count of calls goes up only then.
\<close>

fun mapSteps :: "(nat \<Rightarrow> string) \<Rightarrow> nat \<Rightarrow> raw_step list \<Rightarrow> ProcessStep list" where
  "mapSteps uuids k [] = []"
| "mapSteps uuids k (s # rest) =
     \<lparr> step_id = orElse (raw_id s) (uuids k),
       step_name = raw_name s,
       step_description = raw_description s,
       step_inputs = orElse (raw_inputs s) ''None'',
       step_conditions = Some (orElse (raw_conditions s) []) \<rparr>
     # mapSteps uuids (if falsy (raw_id s) then Suc k else k) rest"

definition parseProcessDescription ::
  "(parse_request \<Rightarrow> raw_step list response_text awaited) \<Rightarrow> (nat \<Rightarrow> string) \<Rightarrow>
   string \<Rightarrow> string \<Rightarrow> (error + ProcessStep list) \<times> parse_request list" where
  "parseProcessDescription oracle uuids apiKey text' =
     (if apiKey = [] then (Inl ApiKeyMissing, [])
      else
        let request = \<lparr> parse_apiKey = apiKey, parse_text = text' \<rparr>
        in (case oracle request of
              Rejects \<Rightarrow> (Inl RequestFailed, [request])
            | Resolves NoText \<Rightarrow> (Inl NoResponse, [request])
            | Resolves NotJson \<Rightarrow> (Inl SyntaxError, [request])
            | Resolves JsonNull \<Rightarrow> (Inl TypeError, [request])
            | Resolves (Json steps) \<Rightarrow> (Inr (mapSteps uuids 0 steps), [request])))"

subsection \<open>chatWithProcessAI, lines 280-328\<close>

record current_process =
  process_name :: string
  process_steps :: "ProcessStep list"

text \<open>
  The request: the values interpolated into the system instruction and the message.
  \<open>chat_latest\<close> is \<^verbatim>\<open>simulationContext?.metrics || 'No simulation run yet'\<close>, \<open>None\<close> for
  the string (an array is truthy, also when it is empty).
\<close>

record chat_request =
  chat_apiKey :: string
  chat_processName :: string
  chat_steps :: "ProcessStep list"
  chat_latest :: "SimulationMetric list option"
  chat_message :: string

record function_call =
  call_name :: string
  call_steps :: "ProcessStep list"
  call_reasoning :: string

record chat_result =
  functionCalls :: "function_call list option"
  chat_text :: "string option"

record chat_reply =
  reply_text :: string
  reply_proposedProcess :: "ProcessStep list option"

text \<open>\<^verbatim>\<open>Array.prototype.join\<close>.\<close>

fun join :: "string \<Rightarrow> string list \<Rightarrow> string" where
  "join sep [] = []"
| "join sep [x] = x"
| "join sep (x # y # ys) = x @ sep @ join sep (y # ys)"

definition newline :: string where
  "newline = [CHR 0x0A]"

definition historyText :: "ChatMessage list \<Rightarrow> string" where
  "historyText history =
     join newline
       (map (\<lambda>h. (if msg_role h = User then ''User'' else ''AI'') @ '': '' @ msg_text h) history)"

definition chatWithProcessAI ::
  "(chat_request \<Rightarrow> chat_result awaited) \<Rightarrow> string \<Rightarrow> ChatMessage list \<Rightarrow> string \<Rightarrow>
   current_process \<Rightarrow> SimulationResult option \<Rightarrow> (error + chat_reply) \<times> chat_request list" where
  "chatWithProcessAI oracle apiKey history currentMessage currentProcess simulationContext =
     (if apiKey = [] then (Inl ApiKeyMissing, [])
      else
        let fullPrompt = historyText history @ newline @ ''User: '' @ currentMessage;
            request = \<lparr> chat_apiKey = apiKey,
                        chat_processName = process_name currentProcess,
                        chat_steps = process_steps currentProcess,
                        chat_latest = map_option metrics simulationContext,
                        chat_message = fullPrompt \<rparr>
        in (case oracle request of
              Rejects \<Rightarrow> (Inl RequestFailed, [request])
            | Resolves result \<Rightarrow>
                (case functionCalls result of
                   Some (call # others) \<Rightarrow>
                     (if call_name call = ''updateProcessDefinition''
                      then (Inr \<lparr> reply_text =
                                    ''I have generated an optimized version of the process based on your request. Reasoning: ''
                                    @ call_reasoning call
                                    @ ''. Click '' @ [CHR 0x27] @ ''Apply Changes'' @ [CHR 0x27]
                                    @ '' to review and simulate.'',
                                  reply_proposedProcess = Some (call_steps call) \<rparr>,
                            [request])
                      else (Inr \<lparr> reply_text =
                                    orElse (chat_text result)
                                      ''I processed that but have no specific output.'',
                                  reply_proposedProcess = None \<rparr>,
                            [request]))
                 | _ \<Rightarrow>
                     (Inr \<lparr> reply_text =
                              orElse (chat_text result)
                                ''I processed that but have no specific output.'',
                            reply_proposedProcess = None \<rparr>,
                      [request]))))"


section \<open>The application (App.tsx)\<close>

datatype tab = Build | Results | Compare

record app =
  apiKey :: string
  showApiKeyModal :: bool
  activeTab :: tab
  processName :: string
  steps :: "ProcessStep list"
  baselineResult :: "SimulationResult option"
  optimizedResult :: "SimulationResult option"
  chatHistory :: "ChatMessage list"
  isSimulating :: bool

text \<open>The initial values of the \<^verbatim>\<open>useState\<close> calls, lines 16-24.\<close>

definition initialApp :: app where
  "initialApp =
     \<lparr> apiKey = [], showApiKeyModal = False, activeTab = Build,
       processName = ''My Process'', steps = [],
       baselineResult = None, optimizedResult = None,
       chatHistory = [], isSimulating = False \<rparr>"

subsection \<open>JSON\<close>

text \<open>
  A JSON value: what \<^verbatim>\<open>JSON.parse\<close> returns for a text, and what \<^verbatim>\<open>JSON.stringify\<close> writes
  the text of. A stored text is represented by the value it denotes.
\<close>

datatype json =
    JNull
  | JBoolean bool
  | JNumber real
  | JString string
  | JArray "json list"
  | JObject "(string \<times> json) list"

text \<open>
  \<^verbatim>\<open>v.k\<close> on a parsed value other than \<^verbatim>\<open>null\<close>: the property of an object (of two
  members with one key the later one counts), and \<^verbatim>\<open>undefined\<close> on anything else. None of
  the keys read below is a property of an array, a string, a number or a boolean.
\<close>

definition property :: "json \<Rightarrow> string \<Rightarrow> json option" where
  "property v k = (case v of JObject members \<Rightarrow> map_of (rev members) k | _ \<Rightarrow> None)"

text \<open>
  \<^verbatim>\<open>JSON.stringify\<close> on values of the declared types: an object's properties in the order
  of the interface, a property that is \<^verbatim>\<open>undefined\<close> left out.
\<close>

definition optionalProperty :: "string \<Rightarrow> json option \<Rightarrow> (string \<times> json) list" where
  "optionalProperty k v = (case v of None \<Rightarrow> [] | Some j \<Rightarrow> [(k, j)])"

definition stepJSON :: "ProcessStep \<Rightarrow> json" where
  "stepJSON st =
     JObject ([(''id'', JString (step_id st)),
               (''name'', JString (step_name st)),
               (''description'', JString (step_description st)),
               (''inputs'', JString (step_inputs st))]
              @ optionalProperty ''conditions'' (map_option JString (step_conditions st)))"

fun categoryJSON :: "category \<Rightarrow> json" where
  "categoryJSON Efficiency = JString ''efficiency''"
| "categoryJSON Waste = JString ''waste''"
| "categoryJSON Yield = JString ''yield''"
| "categoryJSON Throughput = JString ''throughput''"
| "categoryJSON Other = JString ''other''"

definition metricJSON :: "SimulationMetric \<Rightarrow> json" where
  "metricJSON m =
     JObject [(''name'', JString (metric_name m)),
              (''value'', JNumber (metric_value m)),
              (''unit'', JString (metric_unit m)),
              (''category'', categoryJSON (metric_category m))]"

fun statusJSON :: "log_status \<Rightarrow> json" where
  "statusJSON Success = JString ''success''"
| "statusJSON Warning = JString ''warning''"
| "statusJSON Failure = JString ''failure''"

definition logJSON :: "SimulationLog \<Rightarrow> json" where
  "logJSON l =
     JObject [(''stepId'', JString (stepId l)),
              (''stepName'', JString (stepName l)),
              (''outcome'', JString (outcome l)),
              (''details'', JString (details l)),
              (''status'', statusJSON (status l))]"

fun runTypeJSON :: "run_type \<Rightarrow> json" where
  "runTypeJSON BASELINE = JString ''BASELINE''"
| "runTypeJSON OPTIMIZED = JString ''OPTIMIZED''"

definition resultJSON :: "SimulationResult \<Rightarrow> json" where
  "resultJSON r =
     JObject [(''id'', JString (result_id r)),
              (''timestamp'', JNumber (of_int (result_timestamp r))),
              (''type'', runTypeJSON (result_type r)),
              (''metrics'', JArray (map metricJSON (metrics r))),
              (''logs'', JArray (map logJSON (logs r))),
              (''summary'', JString (summary r)),
              (''assumptions'', JArray (map JString (assumptions r)))]"

fun roleJSON :: "role \<Rightarrow> json" where
  "roleJSON User = JString ''user''"
| "roleJSON Model = JString ''model''"

definition messageJSON :: "ChatMessage \<Rightarrow> json" where
  "messageJSON msg =
     JObject ([(''role'', roleJSON (msg_role msg)),
               (''text'', JString (msg_text msg))]
              @ optionalProperty ''isOptimizedProposal'' (map_option JBoolean (isOptimizedProposal msg))
              @ optionalProperty ''proposedProcess''
                  (map_option (\<lambda>ss. JArray (map stepJSON ss)) (proposedProcess msg)))"

text \<open>
  A JSON value read at a declared type; \<open>None\<close> when the value is not of the type. The
  code reads a parsed value without checking it, so a state that holds a value of
  another type than the one declared is outside this model: \<open>None\<close> stands for it.
\<close>

definition asString :: "json \<Rightarrow> string option" where
  "asString j = (case j of JString s \<Rightarrow> Some s | _ \<Rightarrow> None)"

definition asBoolean :: "json \<Rightarrow> bool option" where
  "asBoolean j = (case j of JBoolean b \<Rightarrow> Some b | _ \<Rightarrow> None)"

definition asNumber :: "json \<Rightarrow> real option" where
  "asNumber j = (case j of JNumber x \<Rightarrow> Some x | _ \<Rightarrow> None)"

definition asInteger :: "json \<Rightarrow> int option" where
  "asInteger j =
     (case j of JNumber x \<Rightarrow> if of_int \<lfloor>x\<rfloor> = x then Some \<lfloor>x\<rfloor> else None | _ \<Rightarrow> None)"

definition asArray :: "(json \<Rightarrow> 'a option) \<Rightarrow> json \<Rightarrow> 'a list option" where
  "asArray f j = (case j of JArray elements \<Rightarrow> those (map f elements) | _ \<Rightarrow> None)"

text \<open>
  A property that must be there, one that may be missing, and one that may be missing
  or \<^verbatim>\<open>null\<close>.
\<close>

definition required :: "(json \<Rightarrow> 'a option) \<Rightarrow> json option \<Rightarrow> 'a option" where
  "required f v = (case v of None \<Rightarrow> None | Some j \<Rightarrow> f j)"

definition optional :: "(json \<Rightarrow> 'a option) \<Rightarrow> json option \<Rightarrow> 'a option option" where
  "optional f v = (case v of None \<Rightarrow> Some None | Some j \<Rightarrow> map_option Some (f j))"

definition nullable :: "(json \<Rightarrow> 'a option) \<Rightarrow> json option \<Rightarrow> 'a option option" where
  "nullable f v =
     (case v of None \<Rightarrow> Some None | Some JNull \<Rightarrow> Some None | Some j \<Rightarrow> map_option Some (f j))"

definition asStep :: "json \<Rightarrow> ProcessStep option" where
  "asStep j =
     (case (required asString (property j ''id''),
            required asString (property j ''name''),
            required asString (property j ''description''),
            required asString (property j ''inputs''),
            optional asString (property j ''conditions'')) of
        (Some i, Some n, Some d, Some inp, Some c) \<Rightarrow>
          Some \<lparr> step_id = i, step_name = n, step_description = d, step_inputs = inp,
                 step_conditions = c \<rparr>
      | _ \<Rightarrow> None)"

definition asCategory :: "json \<Rightarrow> category option" where
  "asCategory j =
     (if j = JString ''efficiency'' then Some Efficiency
      else if j = JString ''waste'' then Some Waste
      else if j = JString ''yield'' then Some Yield
      else if j = JString ''throughput'' then Some Throughput
      else if j = JString ''other'' then Some Other
      else None)"

definition asMetric :: "json \<Rightarrow> SimulationMetric option" where
  "asMetric j =
     (case (required asString (property j ''name''),
            required asNumber (property j ''value''),
            required asString (property j ''unit''),
            required asCategory (property j ''category'')) of
        (Some n, Some v, Some u, Some c) \<Rightarrow>
          Some \<lparr> metric_name = n, metric_value = v, metric_unit = u, metric_category = c \<rparr>
      | _ \<Rightarrow> None)"

definition asStatus :: "json \<Rightarrow> log_status option" where
  "asStatus j =
     (if j = JString ''success'' then Some Success
      else if j = JString ''warning'' then Some Warning
      else if j = JString ''failure'' then Some Failure
      else None)"

definition asLog :: "json \<Rightarrow> SimulationLog option" where
  "asLog j =
     (case (required asString (property j ''stepId''),
            required asString (property j ''stepName''),
            required asString (property j ''outcome''),
            required asString (property j ''details''),
            required asStatus (property j ''status'')) of
        (Some i, Some n, Some out, Some d, Some st) \<Rightarrow>
          Some \<lparr> stepId = i, stepName = n, outcome = out, details = d, status = st \<rparr>
      | _ \<Rightarrow> None)"

definition asRunType :: "json \<Rightarrow> run_type option" where
  "asRunType j =
     (if j = JString ''BASELINE'' then Some BASELINE
      else if j = JString ''OPTIMIZED'' then Some OPTIMIZED
      else None)"

definition asResult :: "json \<Rightarrow> SimulationResult option" where
  "asResult j =
     (case (required asString (property j ''id''),
            required asInteger (property j ''timestamp''),
            required asRunType (property j ''type''),
            required (asArray asMetric) (property j ''metrics''),
            required (asArray asLog) (property j ''logs''),
            required asString (property j ''summary''),
            required (asArray asString) (property j ''assumptions'')) of
        (Some i, Some t, Some ty, Some ms, Some ls, Some su, Some asms) \<Rightarrow>
          Some \<lparr> result_id = i, result_timestamp = t, result_type = ty, metrics = ms,
                 logs = ls, summary = su, assumptions = asms \<rparr>
      | _ \<Rightarrow> None)"

definition asRole :: "json \<Rightarrow> role option" where
  "asRole j =
     (if j = JString ''user'' then Some User
      else if j = JString ''model'' then Some Model
      else None)"

definition asMessage :: "json \<Rightarrow> ChatMessage option" where
  "asMessage j =
     (case (required asRole (property j ''role''),
            required asString (property j ''text''),
            optional asBoolean (property j ''isOptimizedProposal''),
            optional (asArray asStep) (property j ''proposedProcess'')) of
        (Some r, Some t, Some p, Some ss) \<Rightarrow>
          Some \<lparr> msg_role = r, msg_text = t, isOptimizedProposal = p, proposedProcess = ss \<rparr>
      | _ \<Rightarrow> None)"

subsection \<open>Persistence, lines 42-68\<close>

text \<open>
  What the load effect reads of the parsed value: the five properties, each missing
  (\<open>None\<close>; \<^verbatim>\<open>null\<close> counts as missing, being falsy like \<^verbatim>\<open>undefined\<close>) or of its declared
  type.
\<close>

record persisted =
  p_processName :: "string option"
  p_steps :: "ProcessStep list option"
  p_baselineResult :: "SimulationResult option"
  p_optimizedResult :: "SimulationResult option"
  p_chatHistory :: "ChatMessage list option"

definition asPersisted :: "json \<Rightarrow> persisted option" where
  "asPersisted parsed =
     (case (nullable asString (property parsed ''processName''),
            nullable (asArray asStep) (property parsed ''steps''),
            nullable asResult (property parsed ''baselineResult''),
            nullable asResult (property parsed ''optimizedResult''),
            nullable (asArray asMessage) (property parsed ''chatHistory'')) of
        (Some n, Some ss, Some b, Some opt, Some h) \<Rightarrow>
          Some \<lparr> p_processName = n, p_steps = ss, p_baselineResult = b,
                 p_optimizedResult = opt, p_chatHistory = h \<rparr>
      | _ \<Rightarrow> None)"

text \<open>
  The item under \<^verbatim>\<open>STORAGE_KEY\<close>: a text that \<^verbatim>\<open>JSON.parse\<close> rejects, or the text of a
  JSON value. The storage holds an item or none.
\<close>

datatype stored = Unparseable | Text json

type_synonym storage = "stored option"

text \<open>
  The load effect, lines 42-56. Nothing is set when there is no item, when
  \<^verbatim>\<open>JSON.parse\<close> throws, or when it returns \<^verbatim>\<open>null\<close> (the first property read throws, and
  the \<^verbatim>\<open>catch\<close> logs it). \<^verbatim>\<open>parsed.steps || []\<close>: an array is truthy, so only a missing
  property gives the default. The result is \<open>None\<close> when a property is not of its declared
  type.
\<close>

definition loadAppState :: "storage \<Rightarrow> app \<Rightarrow> app option" where
  "loadAppState saved s =
     (case saved of
        None \<Rightarrow> Some s
      | Some Unparseable \<Rightarrow> Some s
      | Some (Text JNull) \<Rightarrow> Some s
      | Some (Text parsed) \<Rightarrow>
          (case asPersisted parsed of
             None \<Rightarrow> None
           | Some d \<Rightarrow>
               Some (s\<lparr> processName := orElse (p_processName d) ''My Process'',
                        steps := (case p_steps d of Some ss \<Rightarrow> ss | None \<Rightarrow> []),
                        baselineResult := p_baselineResult d,
                        optimizedResult := p_optimizedResult d,
                        chatHistory := (case p_chatHistory d of Some h \<Rightarrow> h | None \<Rightarrow> []) \<rparr>)))"

text \<open>
  The save effect, lines 59-68: \<^verbatim>\<open>JSON.stringify\<close> of the object of the five values, as
  \<^verbatim>\<open>localStorage.setItem\<close> leaves it in the storage. A result that is \<^verbatim>\<open>null\<close> is written
  as \<^verbatim>\<open>null\<close>.
\<close>

definition stateJSON :: "app \<Rightarrow> json" where
  "stateJSON s =
     JObject [(''processName'', JString (processName s)),
              (''steps'', JArray (map stepJSON (steps s))),
              (''baselineResult'',
                 (case baselineResult s of None \<Rightarrow> JNull | Some r \<Rightarrow> resultJSON r)),
              (''optimizedResult'',
                 (case optimizedResult s of None \<Rightarrow> JNull | Some r \<Rightarrow> resultJSON r)),
              (''chatHistory'', JArray (map messageJSON (chatHistory s)))]"

definition saveAppState :: "app \<Rightarrow> storage" where
  "saveAppState s = Some (Text (stateJSON s))"

subsection \<open>Handlers, lines 71-139\<close>

text \<open>
  A handler returns the state it leaves and what it did besides, in order: the requests
  sent to the service, \<^verbatim>\<open>console.error\<close> and \<^verbatim>\<open>alert\<close>.
\<close>

datatype effect = OracleRequest sim_request | ConsoleError | Alert string

text \<open>\<^verbatim>\<open>handleRunSimulation\<close>, lines 71-93.\<close>

definition handleRunSimulation ::
  "(sim_request \<Rightarrow> sim_data response_text awaited) \<Rightarrow> string \<Rightarrow> int \<Rightarrow> app \<Rightarrow>
   app \<times> effect list" where
  "handleRunSimulation oracle uuid now s =
     (if length (steps s) = 0 then (s, [])
      else if apiKey s = [] then (s\<lparr> showApiKeyModal := True \<rparr>, [])
      else
        let s1 = s\<lparr> isSimulating := True, activeTab := Results \<rparr>
        in (case simulateProcess oracle uuid now (apiKey s) (processName s) (steps s) BASELINE None of
              (Inr result, requests) \<Rightarrow>
                (s1\<lparr> baselineResult := Some result, isSimulating := False \<rparr>,
                 map OracleRequest requests)
            | (Inl e, requests) \<Rightarrow>
                (s1\<lparr> isSimulating := False \<rparr>,
                 map OracleRequest requests
                 @ [ConsoleError, Alert ''Simulation failed. Check API Key configuration.''])))"

text \<open>
  \<^verbatim>\<open>handleApplyOptimization\<close>, lines 95-127. \<open>beginOptimizedRun\<close> is the state after lines
  102-106, the one on display while the request is outstanding.
\<close>

definition beginOptimizedRun :: "ProcessStep list \<Rightarrow> app \<Rightarrow> app" where
  "beginOptimizedRun newSteps s =
     s\<lparr> steps := newSteps, isSimulating := True, activeTab := Results \<rparr>"

text \<open>
  Lines 110-112: the names of the baseline's metrics, or \<^verbatim>\<open>undefined\<close> when there is no
  baseline.
\<close>

definition referenceMetrics :: "app \<Rightarrow> string list option" where
  "referenceMetrics s =
     (case baselineResult s of
        Some b \<Rightarrow> Some (map metric_name (metrics b))
      | None \<Rightarrow> None)"

definition handleApplyOptimization ::
  "(sim_request \<Rightarrow> sim_data response_text awaited) \<Rightarrow> string \<Rightarrow> int \<Rightarrow>
   ProcessStep list \<Rightarrow> app \<Rightarrow> app \<times> effect list" where
  "handleApplyOptimization oracle uuid now newSteps s =
     (if apiKey s = [] then (s\<lparr> showApiKeyModal := True \<rparr>, [])
      else
        let s1 = beginOptimizedRun newSteps s
        in (case simulateProcess oracle uuid now (apiKey s) (processName s) newSteps OPTIMIZED
                   (referenceMetrics s) of
              (Inr result, requests) \<Rightarrow>
                (s1\<lparr> optimizedResult := Some result,
                     activeTab := (case baselineResult s of Some b \<Rightarrow> Compare | None \<Rightarrow> Results),
                     isSimulating := False \<rparr>,
                 map OracleRequest requests)
            | (Inl e, requests) \<Rightarrow>
                (s1\<lparr> isSimulating := False \<rparr>,
                 map OracleRequest requests
                 @ [ConsoleError, Alert ''Optimization simulation failed.''])))"

text \<open>
  \<^verbatim>\<open>handleReset\<close>, lines 129-139. \<open>confirmed\<close> is the answer to the \<^verbatim>\<open>confirm\<close> prompt.
\<close>

definition handleReset :: "bool \<Rightarrow> app \<times> storage \<Rightarrow> app \<times> storage" where
  "handleReset confirmed ctx =
     (case ctx of (s, store) \<Rightarrow>
        if confirmed
        then (s\<lparr> processName := ''New Process'', steps := [],
                 baselineResult := None, optimizedResult := None,
                 chatHistory := [], activeTab := Build \<rparr>,
              None)
        else (s, store))"

text \<open>
  The save effect depends on the five persisted values (line 68), so it runs again
  after a render in which a setter installed a new one. A confirmed reset always does:
  \<^verbatim>\<open>setSteps([])\<close> installs a new array. \<open>resetCommitted\<close> is the handler followed by that
  effect.
\<close>

definition resetCommitted :: "bool \<Rightarrow> app \<times> storage \<Rightarrow> app \<times> storage" where
  "resetCommitted confirmed ctx =
     (case handleReset confirmed ctx of (s', store') \<Rightarrow>
        if confirmed then (s', saveAppState s') else (s', store'))"

subsection \<open>The chat panel's properties, lines 249-257\<close>

text \<open>\<^verbatim>\<open>simulationResult={optimizedResult || baselineResult}\<close>: an object is truthy.\<close>

definition simulationResult :: "app \<Rightarrow> SimulationResult option" where
  "simulationResult s =
     (case optimizedResult s of Some r \<Rightarrow> Some r | None \<Rightarrow> baselineResult s)"

definition currentProcess :: "app \<Rightarrow> current_process" where
  "currentProcess s = \<lparr> process_name = processName s, process_steps = steps s \<rparr>"


section \<open>Concrete inputs\<close>

text \<open>
  A baseline and an optimized result that share two metric names, with a baseline value
  of \<open>0\<close>, one metric only in the baseline and one only in the optimized result. The
  baseline is the more recent of the two.
\<close>

definition exBaseline :: SimulationResult where
  "exBaseline =
     \<lparr> result_id = ''b1'', result_timestamp = 200, result_type = BASELINE,
       metrics = [\<lparr> metric_name = ''Yield'', metric_value = 80, metric_unit = ''%'', metric_category = Yield \<rparr>,
                  \<lparr> metric_name = ''Waste'', metric_value = 0, metric_unit = ''kg'', metric_category = Waste \<rparr>,
                  \<lparr> metric_name = ''Cost'', metric_value = 50, metric_unit = ''USD'', metric_category = Other \<rparr>],
       logs = [], summary = ''baseline run'', assumptions = [] \<rparr>"

definition exOptimized :: SimulationResult where
  "exOptimized =
     \<lparr> result_id = ''o1'', result_timestamp = 100, result_type = OPTIMIZED,
       metrics = [\<lparr> metric_name = ''Yield'', metric_value = 90, metric_unit = ''%'', metric_category = Yield \<rparr>,
                  \<lparr> metric_name = ''Waste'', metric_value = 3, metric_unit = ''kg'', metric_category = Waste \<rparr>,
                  \<lparr> metric_name = ''Energy'', metric_value = 7, metric_unit = ''kWh'', metric_category = Efficiency \<rparr>],
       logs = [], summary = ''optimized run'', assumptions = [] \<rparr>"

text \<open>
  A one-step process, a response of the simulation service whose only metric is
  \<^verbatim>\<open>Cost\<close>, a service that always gives that response, and one whose call rejects.
\<close>

definition exSteps :: "ProcessStep list" where
  "exSteps =
     [\<lparr> step_id = ''1'', step_name = ''Cut'', step_description = ''Cut sheet'',
        step_inputs = ''Steel'', step_conditions = None \<rparr>]"

definition exCostOnly :: sim_data where
  "exCostOnly =
     \<lparr> data_metrics = [\<lparr> metric_name = ''Cost'', metric_value = 40, metric_unit = ''USD'',
                          metric_category = Other \<rparr>],
       data_logs = [\<lparr> stepId = ''1'', stepName = ''Cut'', outcome = ''done'',
                       details = ''sheet cut'', status = Success \<rparr>],
       data_summary = ''one step'', data_assumptions = [''steel is in stock''] \<rparr>"

definition exSimOracle :: "sim_request \<Rightarrow> sim_data response_text awaited" where
  "exSimOracle request = Resolves (Json exCostOnly)"

definition exFailingOracle :: "sim_request \<Rightarrow> sim_data response_text awaited" where
  "exFailingOracle request = Rejects"

text \<open>
  Two responses of the import service: one whose steps share the id \<^verbatim>\<open>"1"\<close>, and one
  with a missing and an empty id between two distinct ones. \<open>exUuids\<close> stands for
  \<^verbatim>\<open>crypto.randomUUID\<close>: its values differ from each other and from the ids supplied.
\<close>

definition exDuplicateIds :: "raw_step list" where
  "exDuplicateIds =
     [\<lparr> raw_id = Some ''1'', raw_name = ''Cut'', raw_description = ''Cut sheet'',
        raw_inputs = Some ''Steel'', raw_conditions = None \<rparr>,
      \<lparr> raw_id = Some ''1'', raw_name = ''Weld'', raw_description = ''Weld parts'',
        raw_inputs = None, raw_conditions = Some ''200 C'' \<rparr>]"

definition exMissingIds :: "raw_step list" where
  "exMissingIds =
     [\<lparr> raw_id = Some ''s1'', raw_name = ''Cut'', raw_description = ''Cut sheet'',
        raw_inputs = Some ''Steel'', raw_conditions = None \<rparr>,
      \<lparr> raw_id = None, raw_name = ''Weld'', raw_description = ''Weld parts'',
        raw_inputs = None, raw_conditions = Some ''200 C'' \<rparr>,
      \<lparr> raw_id = Some [], raw_name = ''Paint'', raw_description = ''Paint parts'',
        raw_inputs = Some [], raw_conditions = Some [] \<rparr>,
      \<lparr> raw_id = Some ''s2'', raw_name = ''Pack'', raw_description = ''Pack parts'',
        raw_inputs = Some ''Boxes'', raw_conditions = None \<rparr>]"

definition exParseOracle :: "raw_step list \<Rightarrow> parse_request \<Rightarrow> raw_step list response_text awaited" where
  "exParseOracle raw request = Resolves (Json raw)"

definition exUuids :: "nat \<Rightarrow> string" where
  "exUuids k = ''uuid-'' @ replicate k (CHR ''x'')"

text \<open>
  The identifiers a response of the import service supplies: the truthy \<^verbatim>\<open>id\<close>s of its
  steps, in order. It is used to state what is assumed of a response.
\<close>

definition suppliedIds :: "raw_step list \<Rightarrow> string list" where
  "suppliedIds raw = map (\<lambda>s. orElse (raw_id s) []) (filter (\<lambda>s. \<not> falsy (raw_id s)) raw)"

text \<open>
  A transcript; a state ready to simulate; and the state reached from it by a baseline
  run at time 50, an applied optimization at time 100 and a second baseline run at time
  200. \<open>exUnnamed\<close> is the ready state after the user has emptied the name field
  (\<^verbatim>\<open>setProcessName(e.target.value)\<close>, ProcessBuilder.tsx line 148).
\<close>

definition exChat :: "ChatMessage list" where
  "exChat =
     [\<lparr> msg_role = User, msg_text = ''reduce waste'', isOptimizedProposal = None,
        proposedProcess = None \<rparr>,
      \<lparr> msg_role = Model, msg_text = ''try this'', isOptimizedProposal = Some True,
        proposedProcess = Some exSteps \<rparr>]"

definition exReady :: app where
  "exReady = initialApp\<lparr> apiKey := ''key'', processName := ''Cutting'', steps := exSteps,
                         chatHistory := exChat \<rparr>"

definition exRerun :: app where
  "exRerun =
     fst (handleRunSimulation exSimOracle ''b2'' 200
       (fst (handleApplyOptimization exSimOracle ''o1'' 100 exSteps
         (fst (handleRunSimulation exSimOracle ''b1'' 50 exReady)))))"

definition exUnnamed :: app where
  "exUnnamed = exReady\<lparr> processName := [] \<rparr>"

text \<open>
  A baseline of value 3 and an optimized value of 4 for one metric: the delta is not a
  double until it is rounded.
\<close>

definition exThree :: SimulationResult where
  "exThree =
     \<lparr> result_id = ''b3'', result_timestamp = 10, result_type = BASELINE,
       metrics = [\<lparr> metric_name = ''Rate'', metric_value = 3, metric_unit = ''1/h'',
                     metric_category = Throughput \<rparr>],
       logs = [], summary = ''three'', assumptions = [] \<rparr>"

definition exFour :: SimulationResult where
  "exFour =
     \<lparr> result_id = ''o4'', result_timestamp = 20, result_type = OPTIMIZED,
       metrics = [\<lparr> metric_name = ''Rate'', metric_value = 4, metric_unit = ''1/h'',
                     metric_category = Throughput \<rparr>],
       logs = [], summary = ''four'', assumptions = [] \<rparr>"

text \<open>A proposal of two steps, other than the steps of the states above.\<close>

definition exProposal :: "ProcessStep list" where
  "exProposal =
     [\<lparr> step_id = ''p1'', step_name = ''Laser cut'', step_description = ''Cut sheet by laser'',
        step_inputs = ''Steel'', step_conditions = Some ''2 kW'' \<rparr>,
      \<lparr> step_id = ''p2'', step_name = ''Deburr'', step_description = ''Remove burrs'',
        step_inputs = ''None'', step_conditions = None \<rparr>]"

section \<open>Properties\<close>

subsection \<open>Rounding\<close>

text \<open>
  The exponent of a number between two powers of two, and with it the double nearest
  to a number of the normal range; the doubles nearest to the numbers that the examples
  below run into.
\<close>

lemma floor_log2:
  assumes "2 powr of_int k \<le> x" and "x < 2 powr of_int (k + 1)"
  shows "\<lfloor>log 2 x\<rfloor> = k"
proof -
  have pos: "0 < x"
    using assms(1) powr_gt_zero [of 2 "of_int k"] by linarith
  have "of_int k \<le> log 2 x"
    using assms(1) pos by (simp add: le_log_iff)
  moreover have "log 2 x < of_int (k + 1)"
    using assms(2) pos by (simp add: log_less_iff)
  ultimately show ?thesis
    by (simp add: floor_eq_iff)
qed

lemma binary64_normal:
  fixes x :: real
  assumes "2 powr of_int k \<le> \<bar>x\<bar>" and "\<bar>x\<bar> < 2 powr of_int (k + 1)" and "- 1022 \<le> k"
    and "\<bar>real_of_int (roundHalfEven (x / 2 powr of_int (k - 52))) * 2 powr of_int (k - 52)\<bar> < 2 ^ 1024"
  shows "binary64 x = Finite (of_int (roundHalfEven (x / 2 powr of_int (k - 52))) * 2 powr of_int (k - 52))"
proof -
  have e: "\<lfloor>log 2 \<bar>x\<bar>\<rfloor> = k" using assms(1,2) by (rule floor_log2)
  have nz: "x \<noteq> 0"
    using assms(1) powr_gt_zero [of 2 "of_int k"] by auto
  have m: "max k (- 1022) = k" using assms(3) by simp
  from assms(4) have "\<not> 2 ^ 1024 \<le> \<bar>real_of_int (roundHalfEven (x / 2 powr of_int (k - 52))) * 2 powr of_int (k - 52)\<bar>"
    by linarith
  then show ?thesis
    using nz unfolding binary64_def e Let_def m by (simp del: power_numeral)
qed

lemma binary64_1: "binary64 1 = Finite 1"
  using binary64_normal [of 0 1] by (simp add: roundHalfEven_def powr_minus powr_numeral)

lemma binary64_10: "binary64 10 = Finite 10"
  using binary64_normal [of 3 10] by (simp add: roundHalfEven_def powr_minus powr_numeral)

lemma binary64_eighth: "binary64 (1 / 8) = Finite (1 / 8)"
  using binary64_normal [of "-3" "1 / 8"] by (simp add: roundHalfEven_def powr_minus powr_numeral)

lemma binary64_12_5: "binary64 (25 / 2) = Finite (25 / 2)"
  using binary64_normal [of 3 "25 / 2"] by (simp add: roundHalfEven_def powr_minus powr_numeral)

lemma binary64_third: "binary64 (1 / 3) = Finite (6004799503160661 / 18014398509481984)"
  using binary64_normal [of "-2" "1 / 3"]
  by (simp add: roundHalfEven_def powr_minus powr_numeral)

lemma binary64_third_times_100:
  "binary64 (150119987579016525 / 4503599627370496) =
     Finite (2345624805922133 / 70368744177664)"
  using binary64_normal [of "5" "150119987579016525 / 4503599627370496"]
  by (simp add: roundHalfEven_def powr_minus powr_numeral)

lemma binary64_minus_50: "binary64 (- 50) = Finite (- 50)"
  using binary64_normal [of 5 "- 50"] by (simp add: roundHalfEven_def powr_minus powr_numeral)

lemma binary64_minus_1: "binary64 (- 1) = Finite (- 1)"
  using binary64_normal [of 0 "- 1"] by (simp add: roundHalfEven_def powr_minus powr_numeral)

lemma binary64_minus_100: "binary64 (- 100) = Finite (- 100)"
  using binary64_normal [of 6 "- 100"] by (simp add: roundHalfEven_def powr_minus powr_numeral)

text \<open>
  Dividing by zero: whatever the rounding, \<open>((x - 0) / 0) * 100\<close> is \<^verbatim>\<open>NaN\<close> or an
  infinity, never a finite number.
\<close>

lemma unguarded_at_zero_not_finite:
  "js_times rnd (js_divide rnd (js_minus rnd (Finite x) (Finite 0)) (Finite 0)) (Finite 100)
     \<noteq> Finite v"
  by (cases "rnd (x - 0)") (auto split: if_splits)

subsection \<open>The comparison view\<close>

lemma find_None_image: "find (\<lambda>m. f m = n) xs = None \<longleftrightarrow> n \<notin> f ` set xs"
  by (auto simp: find_None_iff)

lemma chartData_names: "map chart_name (chartData baseline optimized) = map metric_name (metrics baseline)"
  by (simp add: chartData_def Let_def comp_def)

lemma tableRows_names: "map row_name (tableRows rnd baseline optimized) = map metric_name (metrics baseline)"
  by (simp add: tableRows_def Let_def comp_def)

lemma getDelta_absent:
  assumes "n \<notin> metric_name ` set (metrics optimized)"
  shows "getDelta rnd baseline optimized n =
           (let b = valueOrZero (find (\<lambda>m. metric_name m = n) (metrics baseline))
            in if b = 0 then Finite 0
               else js_times rnd (js_divide rnd (js_minus rnd (Finite 0) (Finite b)) (Finite b))
                      (Finite 100))"
proof -
  from assms have "find (\<lambda>m. metric_name m = n) (metrics optimized) = None"
    by (simp add: find_None_image)
  then show ?thesis
    by (simp add: getDelta_def valueOrZero_def Let_def)
qed

text \<open>
  C9. The comparison is keyed on the baseline's metrics. A name that no baseline metric
  carries (so one present only in the optimized result) has no chart entry and no table
  row; chart and table have one entry per baseline metric, in order. For a baseline
  metric whose name no optimized metric carries, the chart entry has \<open>Optimized = 0\<close>,
  the optimized cell is empty, and the delta is the formula of \<open>getDelta\<close> with \<open>0\<close> for
  the optimized value, in the arithmetic of JavaScript numbers.
\<close>

theorem comparison_keyed_on_baseline:
  "(n \<notin> metric_name ` set (metrics baseline) \<longrightarrow>
      n \<notin> chart_name ` set (chartData baseline optimized) \<and>
      n \<notin> row_name ` set (tableRows rnd baseline optimized))
   \<and> length (chartData baseline optimized) = length (metrics baseline)
   \<and> length (tableRows rnd baseline optimized) = length (metrics baseline)
   \<and> (\<forall>i < length (metrics baseline).
         metric_name (metrics baseline ! i) \<notin> metric_name ` set (metrics optimized) \<longrightarrow>
           chart_name (chartData baseline optimized ! i) = metric_name (metrics baseline ! i) \<and>
           chart_Optimized (chartData baseline optimized ! i) = 0 \<and>
           row_name (tableRows rnd baseline optimized ! i) = metric_name (metrics baseline ! i) \<and>
           row_optimized_value (tableRows rnd baseline optimized ! i) = None \<and>
           row_delta (tableRows rnd baseline optimized ! i) =
             (let b = valueOrZero (find (\<lambda>m. metric_name m = metric_name (metrics baseline ! i))
                                        (metrics baseline))
              in if b = 0 then Finite 0
                 else js_times rnd (js_divide rnd (js_minus rnd (Finite 0) (Finite b)) (Finite b))
                        (Finite 100)))"
proof (intro conjI impI allI)
  assume n: "n \<notin> metric_name ` set (metrics baseline)"
  have "chart_name ` set (chartData baseline optimized) = set (map chart_name (chartData baseline optimized))"
    by simp
  with n show "n \<notin> chart_name ` set (chartData baseline optimized)"
    unfolding chartData_names by simp
  have "row_name ` set (tableRows rnd baseline optimized) = set (map row_name (tableRows rnd baseline optimized))"
    by simp
  with n show "n \<notin> row_name ` set (tableRows rnd baseline optimized)"
    unfolding tableRows_names by simp
next
  show "length (chartData baseline optimized) = length (metrics baseline)"
    by (simp add: chartData_def)
  show "length (tableRows rnd baseline optimized) = length (metrics baseline)"
    by (simp add: tableRows_def)
next
  fix i
  assume i: "i < length (metrics baseline)"
    and absent: "metric_name (metrics baseline ! i) \<notin> metric_name ` set (metrics optimized)"
  from absent have none:
    "find (\<lambda>m. metric_name m = metric_name (metrics baseline ! i)) (metrics optimized) = None"
    by (simp add: find_None_image)
  from i show "chart_name (chartData baseline optimized ! i) = metric_name (metrics baseline ! i)"
    by (simp add: chartData_def Let_def)
  from i none show "chart_Optimized (chartData baseline optimized ! i) = 0"
    by (simp add: chartData_def Let_def)
  from i show "row_name (tableRows rnd baseline optimized ! i) = metric_name (metrics baseline ! i)"
    by (simp add: tableRows_def Let_def)
  from i none show "row_optimized_value (tableRows rnd baseline optimized ! i) = None"
    by (simp add: tableRows_def Let_def)
  from i have "row_delta (tableRows rnd baseline optimized ! i) =
      getDelta rnd baseline optimized (metric_name (metrics baseline ! i))"
    by (simp add: tableRows_def Let_def)
  with getDelta_absent [OF absent]
  show "row_delta (tableRows rnd baseline optimized ! i) =
             (let b = valueOrZero (find (\<lambda>m. metric_name m = metric_name (metrics baseline ! i))
                                        (metrics baseline))
              in if b = 0 then Finite 0
                 else js_times rnd (js_divide rnd (js_minus rnd (Finite 0) (Finite b)) (Finite b))
                        (Finite 100))"
    by simp
qed

theorem comparison_keyed_on_baseline_witness:
  "''Energy'' \<notin> chart_name ` set (chartData exBaseline exOptimized) \<and>
   ''Energy'' \<notin> row_name ` set (tableRows binary64 exBaseline exOptimized) \<and>
   chart_name (chartData exBaseline exOptimized ! 2) = ''Cost'' \<and>
   chart_Optimized (chartData exBaseline exOptimized ! 2) = 0 \<and>
   row_delta (tableRows binary64 exBaseline exOptimized ! 2) = Finite (- 100)"
proof -
  have a: "''Energy'' \<notin> metric_name ` set (metrics exBaseline)"
    by (simp add: exBaseline_def)
  have b: "2 < length (metrics exBaseline)"
    by (simp add: exBaseline_def)
  have c: "metric_name (metrics exBaseline ! 2) \<notin> metric_name ` set (metrics exOptimized)"
    by (simp add: exBaseline_def exOptimized_def)
  have d: "metric_name (metrics exBaseline ! 2) = ''Cost''"
    by (simp add: exBaseline_def)
  have e: "valueOrZero (find (\<lambda>m. metric_name m = ''Cost'') (metrics exBaseline)) = 50"
    by (simp add: exBaseline_def valueOrZero_def)
  from comparison_keyed_on_baseline [of "''Energy''" exBaseline exOptimized binary64] a b c
  show ?thesis
    by (simp add: d e binary64_minus_50 binary64_minus_1 binary64_minus_100)
qed

text \<open>
  C5. For a metric name present in both results, \<open>getDelta\<close> is \<open>0\<close> when the baseline
  value is \<open>0\<close>, and \<open>((optimized - baseline) / baseline) * 100\<close> otherwise, computed in
  the arithmetic of JavaScript numbers whatever the rounding. Where the baseline value is
  \<open>0\<close> the formula itself would give no finite number: the test guards the division. The
  values are those of the first metric of that name in each result, the ones \<^verbatim>\<open>find\<close>
  returns.
\<close>

theorem getDelta_present_in_both:
  assumes "find (\<lambda>m. metric_name m = n) (metrics baseline) = Some bm"
      and "find (\<lambda>m. metric_name m = n) (metrics optimized) = Some om"
  shows "getDelta rnd baseline optimized n =
           (if metric_value bm = 0 then Finite 0
            else js_times rnd
                   (js_divide rnd
                      (js_minus rnd (Finite (metric_value om)) (Finite (metric_value bm)))
                      (Finite (metric_value bm)))
                   (Finite 100)) \<and>
         (metric_value bm = 0 \<longrightarrow>
            (\<forall>v. js_times rnd
                    (js_divide rnd
                       (js_minus rnd (Finite (metric_value om)) (Finite (metric_value bm)))
                       (Finite (metric_value bm)))
                    (Finite 100) \<noteq> Finite v))"
proof (intro conjI impI allI)
  from assms show "getDelta rnd baseline optimized n =
           (if metric_value bm = 0 then Finite 0
            else js_times rnd
                   (js_divide rnd
                      (js_minus rnd (Finite (metric_value om)) (Finite (metric_value bm)))
                      (Finite (metric_value bm)))
                   (Finite 100))"
    by (simp add: getDelta_def valueOrZero_def Let_def)
next
  fix v
  assume "metric_value bm = 0"
  then show "js_times rnd
               (js_divide rnd
                  (js_minus rnd (Finite (metric_value om)) (Finite (metric_value bm)))
                  (Finite (metric_value bm)))
               (Finite 100) \<noteq> Finite v"
    by (simp only: unguarded_at_zero_not_finite not_False_eq_True)
qed

theorem getDelta_present_in_both_witness:
  "getDelta binary64 exBaseline exOptimized ''Yield'' = Finite (25 / 2) \<and>
   getDelta binary64 exBaseline exOptimized ''Waste'' = Finite 0 \<and>
   js_times binary64 (js_divide binary64 (js_minus binary64 (Finite 3) (Finite 0)) (Finite 0))
     (Finite 100) = PosInfinity \<and>
   getDelta binary64 exThree exFour ''Rate'' = Finite (2345624805922133 / 70368744177664)"
proof -
  have y1: "find (\<lambda>m. metric_name m = ''Yield'') (metrics exBaseline) =
      Some \<lparr> metric_name = ''Yield'', metric_value = 80, metric_unit = ''%'', metric_category = Yield \<rparr>"
    by (simp add: exBaseline_def)
  have y2: "find (\<lambda>m. metric_name m = ''Yield'') (metrics exOptimized) =
      Some \<lparr> metric_name = ''Yield'', metric_value = 90, metric_unit = ''%'', metric_category = Yield \<rparr>"
    by (simp add: exOptimized_def)
  have w1: "find (\<lambda>m. metric_name m = ''Waste'') (metrics exBaseline) =
      Some \<lparr> metric_name = ''Waste'', metric_value = 0, metric_unit = ''kg'', metric_category = Waste \<rparr>"
    by (simp add: exBaseline_def)
  have w2: "find (\<lambda>m. metric_name m = ''Waste'') (metrics exOptimized) =
      Some \<lparr> metric_name = ''Waste'', metric_value = 3, metric_unit = ''kg'', metric_category = Waste \<rparr>"
    by (simp add: exOptimized_def)
  have r1: "find (\<lambda>m. metric_name m = ''Rate'') (metrics exThree) =
      Some \<lparr> metric_name = ''Rate'', metric_value = 3, metric_unit = ''1/h'', metric_category = Throughput \<rparr>"
    by (simp add: exThree_def)
  have r2: "find (\<lambda>m. metric_name m = ''Rate'') (metrics exFour) =
      Some \<lparr> metric_name = ''Rate'', metric_value = 4, metric_unit = ''1/h'', metric_category = Throughput \<rparr>"
    by (simp add: exFour_def)
  have yield: "getDelta binary64 exBaseline exOptimized ''Yield'' = Finite (25 / 2)"
    using getDelta_present_in_both [OF y1 y2, of binary64, THEN conjunct1]
    by (simp add: binary64_10 binary64_eighth binary64_12_5)
  have waste: "getDelta binary64 exBaseline exOptimized ''Waste'' = Finite 0"
    using getDelta_present_in_both [OF w1 w2, of binary64, THEN conjunct1] by simp
  have unguarded:
    "js_times binary64 (js_divide binary64 (js_minus binary64 (Finite 3) (Finite 0)) (Finite 0))
       (Finite 100) = PosInfinity"
    using binary64_normal [of 1 3] by (simp add: roundHalfEven_def powr_minus powr_numeral)
  have rate: "getDelta binary64 exThree exFour ''Rate'' = Finite (2345624805922133 / 70368744177664)"
    using getDelta_present_in_both [OF r1 r2, of binary64, THEN conjunct1]
    by (simp add: binary64_1 binary64_third binary64_third_times_100)
  from yield waste unguarded rate show ?thesis
    by simp
qed

subsection \<open>The simulation adapter\<close>

text \<open>
  C7. Without a credential (\<^verbatim>\<open>!apiKey\<close>, the empty string) \<open>simulateProcess\<close> fails
  with \<open>ApiKeyMissing\<close>, the specification's \<^verbatim>\<open>OracleUnavailable\<close>, whatever the service
  would answer, and the list of requests it issued is empty.
\<close>

theorem simulate_without_credential:
  "simulateProcess oracle uuid now [] pname ss t refs = (Inl ApiKeyMissing, [])"
  by (simp add: simulateProcess_def)

theorem simulate_without_credential_witness:
  "simulateProcess exSimOracle ''id-7'' 300 [] ''Cutting'' exSteps BASELINE None =
     (Inl ApiKeyMissing, [])"
  by (rule simulate_without_credential)

text \<open>
  C1, as claimed, fails: the service answers a run that names \<^verbatim>\<open>Yield\<close> as a reference
  metric with the single metric \<^verbatim>\<open>Cost\<close>, and \<open>simulateProcess\<close> returns that result.
\<close>

theorem simulate_accepts_missing_reference_counterexample:
  "(case fst (simulateProcess exSimOracle ''id-7'' 300 ''key'' ''Cutting'' exSteps OPTIMIZED
                (Some [''Yield''])) of
      Inr r \<Rightarrow> ''Yield'' \<notin> metric_name ` set (metrics r)
    | Inl e \<Rightarrow> False)"
  by (simp add: simulateProcess_def exSimOracle_def exCostOnly_def)

text \<open>
  C1, amended. With a credential and a non-empty list of reference names, the request
  tells the service that these names must be present, and whatever metrics the parsed
  response carries are returned as the result's metrics, with a fresh id, the current
  time and the requested run type. The response is not checked against the names.
\<close>

theorem simulate_returns_parsed_metrics:
  assumes "key \<noteq> []" and "names \<noteq> []"
      and "oracle \<lparr> sim_apiKey = key, sim_processName = pname, sim_steps = ss,
                    sim_metricInstruction = MustInclude names \<rparr> = Resolves (Json d)"
  shows "simulateProcess oracle uuid now key pname ss t (Some names) =
           (Inr \<lparr> result_id = uuid, result_timestamp = now, result_type = t,
                   metrics = data_metrics d, logs = data_logs d,
                   summary = data_summary d, assumptions = data_assumptions d \<rparr>,
            [\<lparr> sim_apiKey = key, sim_processName = pname, sim_steps = ss,
               sim_metricInstruction = MustInclude names \<rparr>])"
  using assms by (simp add: simulateProcess_def Let_def)

theorem simulate_returns_parsed_metrics_witness:
  "simulateProcess exSimOracle ''id-7'' 300 ''key'' ''Cutting'' exSteps OPTIMIZED (Some [''Yield'']) =
     (Inr \<lparr> result_id = ''id-7'', result_timestamp = 300, result_type = OPTIMIZED,
             metrics = data_metrics exCostOnly, logs = data_logs exCostOnly,
             summary = data_summary exCostOnly, assumptions = data_assumptions exCostOnly \<rparr>,
      [\<lparr> sim_apiKey = ''key'', sim_processName = ''Cutting'', sim_steps = exSteps,
         sim_metricInstruction = MustInclude [''Yield''] \<rparr>])"
proof -
  have k: "''key'' \<noteq> []" by simp
  have n: "[''Yield''] \<noteq> []" by simp
  have o: "exSimOracle \<lparr> sim_apiKey = ''key'', sim_processName = ''Cutting'', sim_steps = exSteps,
                    sim_metricInstruction = MustInclude [''Yield''] \<rparr> = Resolves (Json exCostOnly)"
    by (simp add: exSimOracle_def)
  from simulate_returns_parsed_metrics [of _ _ exSimOracle, OF k n o] show ?thesis .
qed

subsection \<open>The import adapter\<close>

text \<open>
  C2, as claimed, fails: two steps that the service gives the same id keep it.
\<close>

theorem parse_keeps_duplicate_ids_counterexample:
  "(case fst (parseProcessDescription (exParseOracle exDuplicateIds) exUuids ''key''
                ''cut then weld'') of
      Inr ss \<Rightarrow> \<not> distinct (map step_id ss)
    | Inl e \<Rightarrow> False)"
  by (simp add: parseProcessDescription_def exParseOracle_def exDuplicateIds_def orElse_def falsy_def)

lemma orElse_falsy: "falsy v \<Longrightarrow> orElse v d = d"
  by (auto simp: falsy_def orElse_def split: option.splits)

lemma orElse_truthy: "\<not> falsy v \<Longrightarrow> orElse v d = orElse v []"
  by (auto simp: falsy_def orElse_def split: option.splits)

lemma mapSteps_ids_subset:
  "set (map step_id (mapSteps uuids k raw)) \<subseteq> set (suppliedIds raw) \<union> uuids ` {k..}"
proof (induction raw arbitrary: k)
  case Nil
  then show ?case by simp
next
  case (Cons s rest)
  show ?case
  proof (cases "falsy (raw_id s)")
    case True
    have "uuids ` {Suc k..} \<subseteq> uuids ` {k..}" by auto
    with Cons.IH [of "Suc k"] True show ?thesis
      by (auto simp: orElse_falsy suppliedIds_def)
  next
    case False
    with Cons.IH [of k] show ?thesis
      by (auto simp: suppliedIds_def orElse_truthy [of "raw_id s" "uuids k"])
  qed
qed

lemma mapSteps_distinct:
  assumes "distinct (suppliedIds raw)" and "inj uuids"
      and "set (suppliedIds raw) \<inter> range uuids = {}"
  shows "distinct (map step_id (mapSteps uuids k raw))"
  using assms
proof (induction raw arbitrary: k)
  case Nil
  then show ?case by simp
next
  case (Cons s rest)
  show ?case
  proof (cases "falsy (raw_id s)")
    case True
    from Cons.prems True have rest: "distinct (suppliedIds rest)" "set (suppliedIds rest) \<inter> range uuids = {}"
      by (auto simp: suppliedIds_def)
    have "uuids k \<notin> set (suppliedIds rest)"
      using rest(2) by auto
    moreover have "uuids k \<notin> uuids ` {Suc k..}"
      using \<open>inj uuids\<close> by (auto dest: injD)
    ultimately have "uuids k \<notin> set (map step_id (mapSteps uuids (Suc k) rest))"
      using mapSteps_ids_subset [of uuids "Suc k" rest] by blast
    with Cons.IH [OF rest(1) \<open>inj uuids\<close> rest(2), of "Suc k"] True show ?thesis
      by (simp add: orElse_falsy)
  next
    case False
    let ?i = "orElse (raw_id s) []"
    from Cons.prems False have rest: "distinct (suppliedIds rest)" "set (suppliedIds rest) \<inter> range uuids = {}"
      and new: "?i \<notin> set (suppliedIds rest)" and notuuid: "?i \<notin> range uuids"
      by (auto simp: suppliedIds_def)
    have "?i \<notin> uuids ` {k..}" using notuuid by auto
    with new have "?i \<notin> set (map step_id (mapSteps uuids k rest))"
      using mapSteps_ids_subset [of uuids k rest] by blast
    with Cons.IH [OF rest(1) \<open>inj uuids\<close> rest(2), of k] False show ?thesis
      by (simp add: orElse_truthy [of "raw_id s" "uuids k"])
  qed
qed


lemma mapSteps_length: "length (mapSteps uuids k raw) = length raw"
  by (induction raw arbitrary: k) auto

lemma mapSteps_nth_id:
  "i < length raw \<Longrightarrow>
     step_id (mapSteps uuids k raw ! i) =
       (if falsy (raw_id (raw ! i))
        then uuids (k + length (filter (\<lambda>s. falsy (raw_id s)) (take i raw)))
        else orElse (raw_id (raw ! i)) [])"
proof (induction raw arbitrary: k i)
  case Nil
  then show ?case by simp
next
  case (Cons s rest)
  show ?case
  proof (cases i)
    case 0
    then show ?thesis
      by (simp add: orElse_falsy orElse_truthy [of "raw_id s" "uuids k"])
  next
    case (Suc j)
    with Cons.prems have j: "j < length rest" by simp
    from Cons.IH [OF j] Suc show ?thesis by simp
  qed
qed

text \<open>
  C2, amended. When the ids the service supplies are pairwise distinct, and the
  generated identifiers differ from each other and from the supplied ones, the returned
  steps have pairwise distinct ids, one step per step of the response: a step whose id
  is missing or empty gets a generated identifier, every other step keeps its id.
\<close>

theorem parse_ids_distinct_when_supplied_distinct:
  assumes "key \<noteq> []"
      and "oracle \<lparr> parse_apiKey = key, parse_text = txt \<rparr> = Resolves (Json raw)"
      and "distinct (suppliedIds raw)"
      and "inj uuids"
      and "set (suppliedIds raw) \<inter> range uuids = {}"
  shows "(case fst (parseProcessDescription oracle uuids key txt) of
            Inr ss \<Rightarrow>
              distinct (map step_id ss) \<and> length ss = length raw \<and>
              (\<forall>i < length raw.
                 if falsy (raw_id (raw ! i)) then step_id (ss ! i) \<in> range uuids
                 else Some (step_id (ss ! i)) = raw_id (raw ! i))
          | Inl e \<Rightarrow> False)"
proof -
  from assms(1,2) have r: "fst (parseProcessDescription oracle uuids key txt) = Inr (mapSteps uuids 0 raw)"
    by (simp add: parseProcessDescription_def)
  have d: "distinct (map step_id (mapSteps uuids 0 raw))"
    using assms(3-5) by (rule mapSteps_distinct)
  have n: "\<forall>i < length raw.
             if falsy (raw_id (raw ! i)) then step_id (mapSteps uuids 0 raw ! i) \<in> range uuids
             else Some (step_id (mapSteps uuids 0 raw ! i)) = raw_id (raw ! i)"
    by (auto simp: mapSteps_nth_id falsy_def orElse_def split: option.splits)
  from r d n show ?thesis
    by (simp add: mapSteps_length)
qed

lemma inj_exUuids: "inj exUuids"
  by (simp add: inj_def exUuids_def)

theorem parse_ids_distinct_when_supplied_distinct_witness:
  "(case fst (parseProcessDescription (exParseOracle exMissingIds) exUuids ''key'' ''cut, weld, paint, pack'') of
      Inr ss \<Rightarrow> distinct (map step_id ss) \<and> length ss = 4
    | Inl e \<Rightarrow> False)"
proof -
  have k: "''key'' \<noteq> []" by simp
  have o: "exParseOracle exMissingIds \<lparr> parse_apiKey = ''key'', parse_text = ''cut, weld, paint, pack'' \<rparr>
             = Resolves (Json exMissingIds)"
    by (simp add: exParseOracle_def)
  have s: "suppliedIds exMissingIds = [''s1'', ''s2'']"
    by (simp add: suppliedIds_def exMissingIds_def falsy_def orElse_def)
  have d: "distinct (suppliedIds exMissingIds)"
    by (simp add: s)
  have f: "set (suppliedIds exMissingIds) \<inter> range exUuids = {}"
    by (auto simp: s exUuids_def)
  have l: "length exMissingIds = 4"
    by (simp add: exMissingIds_def)
  from parse_ids_distinct_when_supplied_distinct [of _ "exParseOracle exMissingIds", OF k o d inj_exUuids f]
  show ?thesis
    by (auto simp: l split: sum.splits)
qed

subsection \<open>The simulation handlers\<close>

text \<open>
  C10. With no steps \<open>handleRunSimulation\<close> returns the state as it is and does
  nothing else. With steps and a credential it leaves the optimized result alone and
  sends one request, for the current steps; if the run succeeds the result is tagged
  \<open>BASELINE\<close> and stored as the baseline, and if it fails the baseline is unchanged too.
\<close>

theorem run_simulation_targets_baseline:
  "(steps s = [] \<longrightarrow> handleRunSimulation oracle uuid now s = (s, [])) \<and>
   (steps s \<noteq> [] \<and> apiKey s \<noteq> [] \<longrightarrow>
      optimizedResult (fst (handleRunSimulation oracle uuid now s)) = optimizedResult s \<and>
      [req. OracleRequest req \<leftarrow> snd (handleRunSimulation oracle uuid now s)] =
        [\<lparr> sim_apiKey = apiKey s, sim_processName = processName s, sim_steps = steps s,
           sim_metricInstruction = StandardKPIs \<rparr>] \<and>
      (case fst (simulateProcess oracle uuid now (apiKey s) (processName s) (steps s) BASELINE None) of
         Inr r \<Rightarrow>
           result_type r = BASELINE \<and>
           fst (handleRunSimulation oracle uuid now s) =
             s\<lparr> isSimulating := False, activeTab := Results, baselineResult := Some r \<rparr>
       | Inl e \<Rightarrow>
           fst (handleRunSimulation oracle uuid now s) =
             s\<lparr> isSimulating := False, activeTab := Results \<rparr>))"
  by (auto simp: handleRunSimulation_def simulateProcess_def Let_def
           split: awaited.splits response_text.splits)

theorem run_simulation_targets_baseline_witness:
  "handleRunSimulation exSimOracle ''b1'' 50 initialApp = (initialApp, []) \<and>
   optimizedResult (fst (handleRunSimulation exSimOracle ''b1'' 50 exReady)) = None \<and>
   [req. OracleRequest req \<leftarrow> snd (handleRunSimulation exSimOracle ''b1'' 50 exReady)] =
     [\<lparr> sim_apiKey = ''key'', sim_processName = ''Cutting'', sim_steps = exSteps,
        sim_metricInstruction = StandardKPIs \<rparr>]"
proof -
  have e: "steps initialApp = []"
    by (simp add: initialApp_def)
  have r: "steps exReady \<noteq> [] \<and> apiKey exReady \<noteq> []"
    by (simp add: exReady_def exSteps_def)
  have f: "apiKey exReady = ''key''" "processName exReady = ''Cutting''" "steps exReady = exSteps"
    "optimizedResult exReady = None"
    by (simp_all add: exReady_def initialApp_def)
  from run_simulation_targets_baseline [of initialApp exSimOracle "''b1''" 50] e
    run_simulation_targets_baseline [of exReady exSimOracle "''b1''" 50] r
  show ?thesis
    by (simp add: f)
qed

text \<open>
  C8. With a credential, \<open>handleApplyOptimization\<close> replaces the steps whatever becomes
  of the simulation, and the one request it sends is for the new steps: the steps are
  replaced before the simulation is attempted, not as part of its success. The baseline
  is never touched. If the simulation fails, the state left is the one the run started
  in with the busy flag cleared, that is, the state before with the steps replaced and
  the results tab shown: the optimized result is what it was. If it succeeds, its result
  is the optimized result.
\<close>

theorem apply_optimization_not_atomic:
  assumes "apiKey s \<noteq> []"
  shows "steps (fst (handleApplyOptimization oracle uuid now newSteps s)) = newSteps \<and>
         baselineResult (fst (handleApplyOptimization oracle uuid now newSteps s)) = baselineResult s \<and>
         [req. OracleRequest req \<leftarrow> snd (handleApplyOptimization oracle uuid now newSteps s)] =
           [\<lparr> sim_apiKey = apiKey s, sim_processName = processName s, sim_steps = newSteps,
              sim_metricInstruction =
                (case referenceMetrics s of
                   None \<Rightarrow> StandardKPIs
                 | Some names \<Rightarrow> if names = [] then StandardKPIs else MustInclude names) \<rparr>] \<and>
         (case fst (simulateProcess oracle uuid now (apiKey s) (processName s) newSteps OPTIMIZED
                     (referenceMetrics s)) of
            Inl e \<Rightarrow>
              fst (handleApplyOptimization oracle uuid now newSteps s) =
                s\<lparr> steps := newSteps, activeTab := Results, isSimulating := False \<rparr> \<and>
              fst (handleApplyOptimization oracle uuid now newSteps s) =
                (beginOptimizedRun newSteps s)\<lparr> isSimulating := False \<rparr> \<and>
              optimizedResult (fst (handleApplyOptimization oracle uuid now newSteps s)) =
                optimizedResult s
          | Inr r \<Rightarrow>
              optimizedResult (fst (handleApplyOptimization oracle uuid now newSteps s)) = Some r)"
proof -
  let ?sim = "simulateProcess oracle uuid now (apiKey s) (processName s) newSteps OPTIMIZED
       (referenceMetrics s)"
  let ?request = "\<lparr> sim_apiKey = apiKey s, sim_processName = processName s, sim_steps = newSteps,
              sim_metricInstruction =
                (case referenceMetrics s of
                   None \<Rightarrow> StandardKPIs
                 | Some names \<Rightarrow> if names = [] then StandardKPIs else MustInclude names) \<rparr>"
  from assms have reqs: "snd ?sim = [?request]"
    by (auto simp: simulateProcess_def Let_def
             split: awaited.splits response_text.splits option.splits)
  show ?thesis
  proof (cases "fst ?sim")
    case (Inl e)
    with reqs have sim: "?sim = (Inl e, [?request])"
      by (simp add: prod_eq_iff)
    from assms have final:
      "handleApplyOptimization oracle uuid now newSteps s =
         ((beginOptimizedRun newSteps s)\<lparr> isSimulating := False \<rparr>,
          [OracleRequest ?request, ConsoleError, Alert ''Optimization simulation failed.''])"
      by (simp add: handleApplyOptimization_def Let_def sim)
    show ?thesis
      unfolding final Inl by (simp add: beginOptimizedRun_def)
  next
    case (Inr r)
    with reqs have sim: "?sim = (Inr r, [?request])"
      by (simp add: prod_eq_iff)
    from assms have final:
      "handleApplyOptimization oracle uuid now newSteps s =
         ((beginOptimizedRun newSteps s)
            \<lparr> optimizedResult := Some r,
              activeTab := (case baselineResult s of Some b \<Rightarrow> Compare | None \<Rightarrow> Results),
              isSimulating := False \<rparr>,
          [OracleRequest ?request])"
      by (simp add: handleApplyOptimization_def Let_def sim)
    show ?thesis
      unfolding final Inr by (simp add: beginOptimizedRun_def)
  qed
qed

lemma exRerun_fields:
  "apiKey exRerun = ''key''" "processName exRerun = ''Cutting''" "steps exRerun = exSteps"
  "map_option result_timestamp (baselineResult exRerun) = Some 200"
  "map_option result_timestamp (optimizedResult exRerun) = Some 100"
  by (simp_all add: exRerun_def exReady_def initialApp_def exSimOracle_def exSteps_def
        handleRunSimulation_def handleApplyOptimization_def beginOptimizedRun_def
        referenceMetrics_def simulateProcess_def Let_def)

theorem apply_optimization_not_atomic_witness:
  "steps (fst (handleApplyOptimization exFailingOracle ''o2'' 300 exProposal exRerun)) = exProposal \<and>
   exProposal \<noteq> steps exRerun \<and>
   map_option result_timestamp
     (baselineResult (fst (handleApplyOptimization exFailingOracle ''o2'' 300 exProposal exRerun))) =
     Some 200 \<and>
   map_option result_timestamp
     (optimizedResult (fst (handleApplyOptimization exFailingOracle ''o2'' 300 exProposal exRerun))) =
     Some 100 \<and>
   steps (fst (handleApplyOptimization exSimOracle ''o2'' 300 exProposal exRerun)) = exProposal \<and>
   map_option result_timestamp
     (optimizedResult (fst (handleApplyOptimization exSimOracle ''o2'' 300 exProposal exRerun))) =
     Some 300"
proof -
  have k: "apiKey exRerun \<noteq> []"
    by (simp add: exRerun_fields)
  have f: "fst (simulateProcess exFailingOracle ''o2'' 300 (apiKey exRerun) (processName exRerun)
                 exProposal OPTIMIZED (referenceMetrics exRerun)) = Inl RequestFailed"
    by (simp add: simulateProcess_def exFailingOracle_def exRerun_fields Let_def)
  have g: "\<exists>r. fst (simulateProcess exSimOracle ''o2'' 300 (apiKey exRerun) (processName exRerun)
                 exProposal OPTIMIZED (referenceMetrics exRerun)) = Inr r \<and> result_timestamp r = 300"
    by (simp add: simulateProcess_def exSimOracle_def exRerun_fields Let_def)
  have d: "exProposal \<noteq> steps exRerun"
    by (simp add: exRerun_fields exProposal_def exSteps_def)
  note failing = apply_optimization_not_atomic [OF k, of exFailingOracle "''o2''" 300 exProposal]
  note passing = apply_optimization_not_atomic [OF k, of exSimOracle "''o2''" 300 exProposal]
  from failing have f1:
    "steps (fst (handleApplyOptimization exFailingOracle ''o2'' 300 exProposal exRerun)) = exProposal"
    and f2: "baselineResult (fst (handleApplyOptimization exFailingOracle ''o2'' 300 exProposal exRerun))
      = baselineResult exRerun"
    by blast+
  from failing f have f3:
    "optimizedResult (fst (handleApplyOptimization exFailingOracle ''o2'' 300 exProposal exRerun))
      = optimizedResult exRerun"
    by simp
  from passing have p1:
    "steps (fst (handleApplyOptimization exSimOracle ''o2'' 300 exProposal exRerun)) = exProposal"
    by blast
  from passing g have p2:
    "map_option result_timestamp
       (optimizedResult (fst (handleApplyOptimization exSimOracle ''o2'' 300 exProposal exRerun))) =
     Some 300"
    by auto
  from f1 f2 f3 p1 p2 d show ?thesis
    by (simp add: exRerun_fields)
qed

subsection \<open>The chat panel\<close>

text \<open>
  C6, as claimed, fails: after a baseline run, an applied optimization and a second
  baseline run, the result handed to the chat panel is the optimized one, of time 100,
  while the baseline is of time 200.
\<close>

theorem chat_context_is_older_result_counterexample:
  "map_option result_timestamp (simulationResult exRerun) = Some 100 \<and>
   map_option result_type (simulationResult exRerun) = Some OPTIMIZED \<and>
   map_option result_timestamp (baselineResult exRerun) = Some 200"
  by (simp add: exRerun_def exReady_def initialApp_def exSteps_def exSimOracle_def
        handleRunSimulation_def handleApplyOptimization_def beginOptimizedRun_def
        referenceMetrics_def simulateProcess_def simulationResult_def Let_def)

text \<open>
  C6, amended. The result handed to the chat panel is the optimized result whenever
  there is one, and the baseline result otherwise; timestamps are not compared. With a
  credential, the request of \<open>chatWithProcessAI\<close> carries the metrics of that result.
\<close>

theorem chat_context_prefers_optimized:
  "(optimizedResult s = Some r \<longrightarrow> simulationResult s = Some r) \<and>
   (optimizedResult s = None \<longrightarrow> simulationResult s = baselineResult s) \<and>
   (apiKey s \<noteq> [] \<longrightarrow>
      map chat_latest
        (snd (chatWithProcessAI oracle (apiKey s) history message (currentProcess s)
               (simulationResult s))) =
      [case optimizedResult s of
         Some r \<Rightarrow> Some (metrics r)
       | None \<Rightarrow> map_option metrics (baselineResult s)])"
  by (auto simp: simulationResult_def chatWithProcessAI_def Let_def
           split: option.splits awaited.splits list.splits)

theorem chat_context_prefers_optimized_witness:
  "simulationResult exRerun = optimizedResult exRerun \<and>
   map chat_latest
     (snd (chatWithProcessAI (\<lambda>request. Rejects) (apiKey exRerun) exChat ''and now?''
            (currentProcess exRerun) (simulationResult exRerun))) =
   [Some (data_metrics exCostOnly)]"
proof -
  let ?r = "\<lparr> result_id = ''o1'', result_timestamp = 100, result_type = OPTIMIZED,
             metrics = data_metrics exCostOnly, logs = data_logs exCostOnly,
             summary = data_summary exCostOnly, assumptions = data_assumptions exCostOnly \<rparr>"
  have o: "optimizedResult exRerun = Some ?r"
    by (simp add: exRerun_def exReady_def initialApp_def exSimOracle_def
          handleRunSimulation_def handleApplyOptimization_def beginOptimizedRun_def
          referenceMetrics_def simulateProcess_def Let_def)
  have k: "apiKey exRerun \<noteq> []"
    by (simp add: exRerun_def exReady_def initialApp_def exSimOracle_def
          handleRunSimulation_def handleApplyOptimization_def beginOptimizedRun_def
          referenceMetrics_def simulateProcess_def Let_def)
  note w = chat_context_prefers_optimized [of exRerun ?r "\<lambda>request. Rejects" exChat "''and now?''"]
  from w o have a: "simulationResult exRerun = Some ?r"
    by blast
  from w k have
    "map chat_latest
       (snd (chatWithProcessAI (\<lambda>request. Rejects) (apiKey exRerun) exChat ''and now?''
              (currentProcess exRerun) (simulationResult exRerun))) =
     [case optimizedResult exRerun of
        Some r \<Rightarrow> Some (metrics r)
      | None \<Rightarrow> map_option metrics (baselineResult exRerun)]"
    by blast
  then have b:
    "map chat_latest
       (snd (chatWithProcessAI (\<lambda>request. Rejects) (apiKey exRerun) exChat ''and now?''
              (currentProcess exRerun) (simulationResult exRerun))) =
     [Some (data_metrics exCostOnly)]"
    unfolding o by simp
  show ?thesis
  proof (intro conjI)
    from a o show "simulationResult exRerun = optimizedResult exRerun"
      by simp
    show "map chat_latest
       (snd (chatWithProcessAI (\<lambda>request. Rejects) (apiKey exRerun) exChat ''and now?''
              (currentProcess exRerun) (simulationResult exRerun))) =
     [Some (data_metrics exCostOnly)]"
      by (rule b)
  qed
qed

subsection \<open>JSON values read back\<close>

text \<open>
  Reading at its declared type the JSON value written for a value of that type gives
  the value back: for steps, metrics, log entries, results and messages, and for the
  five properties of the stored state.
\<close>

lemma those_map_Some:
  assumes "\<And>x. f (g x) = Some x"
  shows "those (map f (map g xs)) = Some xs"
  by (induction xs) (simp_all add: assms comp_def)

lemma asArray_JArray:
  assumes "\<And>x. f (g x) = Some x"
  shows "asArray f (JArray (map g xs)) = Some xs"
  using those_map_Some [of f g xs, OF assms] by (simp add: asArray_def del: map_map)

lemma asStep_stepJSON: "asStep (stepJSON st) = Some st"
  by (cases "step_conditions st")
     (simp_all add: asStep_def stepJSON_def property_def optionalProperty_def required_def
        optional_def asString_def)

lemma asCategory_categoryJSON: "asCategory (categoryJSON c) = Some c"
  by (cases c) (simp_all add: asCategory_def)

lemma asStatus_statusJSON: "asStatus (statusJSON c) = Some c"
  by (cases c) (simp_all add: asStatus_def)

lemma asRunType_runTypeJSON: "asRunType (runTypeJSON c) = Some c"
  by (cases c) (simp_all add: asRunType_def)

lemma asRole_roleJSON: "asRole (roleJSON c) = Some c"
  by (cases c) (simp_all add: asRole_def)

lemma asMetric_metricJSON: "asMetric (metricJSON m) = Some m"
  by (simp add: asMetric_def metricJSON_def property_def required_def asString_def asNumber_def
        asCategory_categoryJSON)

lemma asLog_logJSON: "asLog (logJSON l) = Some l"
  by (simp add: asLog_def logJSON_def property_def required_def asString_def asStatus_statusJSON)

lemma asString_JString: "asString (JString x) = Some x"
  by (simp add: asString_def)

lemma asResult_resultJSON: "asResult (resultJSON r) = Some r"
  by (simp add: asResult_def resultJSON_def property_def required_def asString_def asInteger_def
        asRunType_runTypeJSON asArray_JArray [of asMetric metricJSON, OF asMetric_metricJSON]
        asArray_JArray [of asLog logJSON, OF asLog_logJSON]
        asArray_JArray [of asString JString, OF asString_JString])

lemma asMessage_messageJSON: "asMessage (messageJSON msg) = Some msg"
  by (cases "isOptimizedProposal msg"; cases "proposedProcess msg")
     (simp_all add: asMessage_def messageJSON_def property_def optionalProperty_def required_def
        optional_def asString_def asBoolean_def asRole_roleJSON
        asArray_JArray [of asStep stepJSON, OF asStep_stepJSON])

lemma resultJSON_not_null: "resultJSON r \<noteq> JNull"
  by (simp add: resultJSON_def)

lemma nullable_value: "j \<noteq> JNull \<Longrightarrow> nullable f (Some j) = map_option Some (f j)"
  by (cases j) (simp_all add: nullable_def)

lemma nullable_JNull: "nullable f (Some JNull) = Some None"
  by (simp add: nullable_def)

lemma nullable_result:
  "nullable asResult (Some (case r of None \<Rightarrow> JNull | Some x \<Rightarrow> resultJSON x)) = Some r"
  by (cases r) (simp_all add: nullable_JNull nullable_value resultJSON_not_null asResult_resultJSON)

lemma asPersisted_stateJSON:
  "asPersisted (stateJSON s) =
     Some \<lparr> p_processName = Some (processName s), p_steps = Some (steps s),
            p_baselineResult = baselineResult s, p_optimizedResult = optimizedResult s,
            p_chatHistory = Some (chatHistory s) \<rparr>"
  by (simp add: asPersisted_def stateJSON_def property_def nullable_value nullable_result
        asString_def
        asArray_JArray [of asStep stepJSON, OF asStep_stepJSON]
        asArray_JArray [of asMessage messageJSON, OF asMessage_messageJSON])

lemma stateJSON_not_null: "stateJSON s \<noteq> JNull"
  by (simp add: stateJSON_def)

lemma load_save:
  "loadAppState (saveAppState s) s0 =
     Some (s0\<lparr> processName := orElse (Some (processName s)) ''My Process'',
               steps := steps s, baselineResult := baselineResult s,
               optimizedResult := optimizedResult s, chatHistory := chatHistory s \<rparr>)"
proof -
  obtain members where m: "stateJSON s = JObject members"
    by (simp add: stateJSON_def)
  have "loadAppState (Some (Text (stateJSON s))) s0 =
     (case asPersisted (stateJSON s) of
        None \<Rightarrow> None
      | Some d \<Rightarrow>
          Some (s0\<lparr> processName := orElse (p_processName d) ''My Process'',
                    steps := (case p_steps d of Some ss \<Rightarrow> ss | None \<Rightarrow> []),
                    baselineResult := p_baselineResult d,
                    optimizedResult := p_optimizedResult d,
                    chatHistory := (case p_chatHistory d of Some h \<Rightarrow> h | None \<Rightarrow> []) \<rparr>))"
    unfolding m by (simp add: loadAppState_def)
  then show ?thesis
    by (simp add: saveAppState_def asPersisted_stateJSON)
qed

subsection \<open>Persistence and reset\<close>

text \<open>
  C3, as claimed, fails: after a confirmed reset the process name is
  \<^verbatim>\<open>New Process\<close>, not the default \<^verbatim>\<open>My Process\<close>.
\<close>

theorem reset_name_differs_from_default_counterexample:
  "\<not> (processName (fst (handleReset True (exRerun, saveAppState exRerun))) = ''My Process'')"
  by (simp add: handleReset_def)

text \<open>
  C3, amended. A confirmed reset leaves no steps, no baseline and no optimized result,
  an empty transcript, and the name \<^verbatim>\<open>New Process\<close>; a reset that is not confirmed
  changes nothing. A load that finds no stored item yields the default snapshot: the name
  \<^verbatim>\<open>My Process\<close>, no steps, no results, an empty transcript.
\<close>

theorem reset_clears_fields:
  "processName (fst (handleReset True (s, store))) = ''New Process'' \<and>
   steps (fst (handleReset True (s, store))) = [] \<and>
   baselineResult (fst (handleReset True (s, store))) = None \<and>
   optimizedResult (fst (handleReset True (s, store))) = None \<and>
   chatHistory (fst (handleReset True (s, store))) = [] \<and>
   handleReset False (s, store) = (s, store) \<and>
   map_option processName (loadAppState None initialApp) = Some ''My Process'' \<and>
   map_option steps (loadAppState None initialApp) = Some [] \<and>
   map_option baselineResult (loadAppState None initialApp) = Some None \<and>
   map_option optimizedResult (loadAppState None initialApp) = Some None \<and>
   map_option chatHistory (loadAppState None initialApp) = Some []"
  by (simp add: handleReset_def loadAppState_def initialApp_def)

theorem reset_clears_fields_witness:
  "steps (fst (handleReset True (exRerun, saveAppState exRerun))) = [] \<and>
   processName (fst (handleReset True (exRerun, saveAppState exRerun))) = ''New Process''"
  using reset_clears_fields [of exRerun "saveAppState exRerun"] by simp

text \<open>
  C4, as claimed, fails: a snapshot whose process name is empty is loaded with the name
  \<^verbatim>\<open>My Process\<close>.
\<close>

theorem empty_name_not_restored_counterexample:
  "\<not> (map_option processName (loadAppState (saveAppState exUnnamed) initialApp) =
        Some (processName exUnnamed))"
  by (simp add: load_save exUnnamed_def orElse_def)

text \<open>
  C4, amended. Saving a snapshot and then loading, through the JSON text and from any
  state, gives back the steps, both results and the transcript, and the process name
  when it is not empty; an empty process name is loaded as \<^verbatim>\<open>My Process\<close>.
\<close>

theorem save_then_load:
  "map_option processName (loadAppState (saveAppState s) s0) =
     Some (if processName s = [] then ''My Process'' else processName s) \<and>
   map_option steps (loadAppState (saveAppState s) s0) = Some (steps s) \<and>
   map_option baselineResult (loadAppState (saveAppState s) s0) = Some (baselineResult s) \<and>
   map_option optimizedResult (loadAppState (saveAppState s) s0) = Some (optimizedResult s) \<and>
   map_option chatHistory (loadAppState (saveAppState s) s0) = Some (chatHistory s)"
  by (simp add: load_save orElse_def)

theorem save_then_load_witness:
  "map_option processName (loadAppState (saveAppState exRerun) initialApp) = Some ''Cutting'' \<and>
   map_option steps (loadAppState (saveAppState exRerun) initialApp) = Some (steps exRerun) \<and>
   map_option baselineResult (loadAppState (saveAppState exRerun) initialApp) =
     Some (baselineResult exRerun) \<and>
   map_option optimizedResult (loadAppState (saveAppState exRerun) initialApp) =
     Some (optimizedResult exRerun) \<and>
   map_option chatHistory (loadAppState (saveAppState exRerun) initialApp) =
     Some (chatHistory exRerun) \<and>
   map_option processName (loadAppState (saveAppState exUnnamed) initialApp) = Some ''My Process''"
proof -
  have n: "processName exRerun = ''Cutting''"
    by (simp add: exRerun_def exReady_def initialApp_def exSimOracle_def exSteps_def
          handleRunSimulation_def handleApplyOptimization_def beginOptimizedRun_def
          referenceMetrics_def simulateProcess_def Let_def)
  have u: "processName exUnnamed = []"
    by (simp add: exUnnamed_def)
  from save_then_load [of exRerun initialApp] save_then_load [of exUnnamed initialApp]
  show ?thesis
    by (simp add: n u)
qed

text \<open>
  The handler of a confirmed reset removes the stored item, and the save effect that
  follows the render writes it again: the storage then holds the reset snapshot, and a
  load from it gives the name \<^verbatim>\<open>New Process\<close>.
\<close>

theorem reset_record_written_again:
  "snd (handleReset True (s, store)) = None \<and>
   snd (resetCommitted True (s, store)) =
     Some (Text (JObject [(''processName'', JString ''New Process''), (''steps'', JArray []),
                          (''baselineResult'', JNull), (''optimizedResult'', JNull),
                          (''chatHistory'', JArray [])])) \<and>
   map_option processName (loadAppState (snd (resetCommitted True (s, store))) initialApp) =
     Some ''New Process''"
proof -
  have r: "resetCommitted True (s, store) =
      (fst (handleReset True (s, store)), saveAppState (fst (handleReset True (s, store))))"
    by (simp add: resetCommitted_def handleReset_def)
  show ?thesis
    unfolding r by (simp add: load_save orElse_def) (simp add: handleReset_def saveAppState_def stateJSON_def)
qed


end
